theory Spec2Isabelle
  imports Main
begin

section \<open>The frontend build hook of streamlit-javascript (hatch\_build.py)\<close>

text \<open>
  The hook is one Python class, \<^verbatim>\<open>BuildFrontendHook\<close>, whose entry point
  \<^verbatim>\<open>initialize\<close> changes into the package directory, opens a log file and runs a
  fixed sequence of checks and subprocesses. The embedding below follows the source
  method by method. What the code does to the outside world is explicit:
  \<^item> the process state (current directory, the open log stream, and the list of
    subprocess invocations made so far) is a record passed from step to step;
  \<^item> a raised exception is the \<open>Inl\<close> value of a sum, returned together with the
    state reached when it was raised, so that \<^verbatim>\<open>finally\<close> can act on that state;
  \<^item> what the outside world answers (the outcome of opening a file, of
    \<^verbatim>\<open>json.load\<close>, of each \<^verbatim>\<open>subprocess.run\<close>, of each \<^verbatim>\<open>is_dir\<close>) is read from a
    record \<open>env\<close>, over which every theorem quantifies.
\<close>

subsection \<open>Python strings\<close>

text \<open>
  A Python \<^verbatim>\<open>str\<close> is a sequence of Unicode code points, so it is modelled as a list
  of natural numbers; \<open>ustr\<close> turns an ASCII literal into such a list.
\<close>

type_synonym pystr = "nat list"

definition ustr :: "string \<Rightarrow> pystr" where
  "ustr cs = map of_char cs"

text \<open>
  The line boundaries of \<^verbatim>\<open>str.splitlines\<close>: LF, VT, FF, CR, FS, GS, RS, NEL,
  LINE SEPARATOR and PARAGRAPH SEPARATOR; CR LF counts as one boundary.
\<close>

definition is_linebreak :: "nat \<Rightarrow> bool" where
  "is_linebreak c = (c \<in> {10, 11, 12, 13, 28, 29, 30, 133, 8232, 8233})"

text \<open>The characters that \<^verbatim>\<open>str.strip()\<close> removes (those with \<^verbatim>\<open>str.isspace\<close>).\<close>

definition is_space :: "nat \<Rightarrow> bool" where
  "is_space c = ((9 \<le> c \<and> c \<le> 13) \<or> (28 \<le> c \<and> c \<le> 32) \<or> c = 133 \<or> c = 160
      \<or> c = 5760 \<or> (8192 \<le> c \<and> c \<le> 8202) \<or> c = 8232 \<or> c = 8233 \<or> c = 8239
      \<or> c = 8287 \<or> c = 12288)"

text \<open>
  The log is opened with \<^verbatim>\<open>encoding="utf-8"\<close>, and the output of a subprocess is decoded
  with it. A \<^verbatim>\<open>str\<close> can be encoded in UTF-8 unless it holds a surrogate code point
  (U+D800 to U+DFFF), which \<^verbatim>\<open>json.load\<close> produces from an escape such as
  \<^verbatim>\<open>"\ud800"\<close>; decoded text never holds one.
\<close>

definition is_surrogate :: "nat \<Rightarrow> bool" where
  "is_surrogate c = (55296 \<le> c \<and> c \<le> 57343)"

definition encodable :: "pystr \<Rightarrow> bool" where
  "encodable t = (\<forall>c\<in>set t. \<not> is_surrogate c)"

typedef utf8_text = "{t :: nat list. encodable t}"
  morphisms text_of Abs_utf8_text
  by (rule exI [of _ "[]"]) (simp add: encodable_def)

setup_lifting type_definition_utf8_text

text \<open>An ASCII literal as decoded text.\<close>

lift_definition utf8 :: "string \<Rightarrow> utf8_text" is ustr
proof -
  fix cs :: string
  have "\<not> is_surrogate (of_char c)" for c :: char
  proof -
    have "(of_char c :: nat) = of_char c mod 256" by simp
    also have "\<dots> < 256" by (rule mod_less_divisor) simp
    finally have "(of_char c :: nat) < 256" .
    then show ?thesis unfolding is_surrogate_def by linarith
  qed
  then show "encodable (ustr cs)" by (auto simp: encodable_def ustr_def)
qed

text \<open>
  \<^verbatim>\<open>msg.splitlines()\<close>: \<open>cur\<close> is the line read so far. A boundary ends the
  current line (which may be empty); text left after the last boundary is a line
  only when it is not empty.
\<close>

fun splitlines_from :: "pystr \<Rightarrow> pystr \<Rightarrow> pystr list" where
  "splitlines_from cur [] = (if cur = [] then [] else [cur])"
| "splitlines_from cur [c] =
     (if is_linebreak c then cur # splitlines_from [] [] else splitlines_from (cur @ [c]) [])"
| "splitlines_from cur (c # d # cs) =
     (if c = 13 \<and> d = 10 then cur # splitlines_from [] cs
      else if is_linebreak c then cur # splitlines_from [] (d # cs)
      else splitlines_from (cur @ [c]) (d # cs))"

definition splitlines :: "pystr \<Rightarrow> pystr list" where
  "splitlines msg = splitlines_from [] msg"

text \<open>\<^verbatim>\<open>line.strip()\<close>: whitespace removed at both ends.\<close>

definition strip :: "pystr \<Rightarrow> pystr" where
  "strip line = rev (dropWhile is_space (rev (dropWhile is_space line)))"

text \<open>\<^verbatim>\<open>needle in text\<close> on two strings: \<open>needle\<close> occurs as a contiguous part.\<close>

fun startswith :: "pystr \<Rightarrow> pystr \<Rightarrow> bool" where
  "startswith text [] = True"
| "startswith [] (n # ns) = False"
| "startswith (c # cs) (n # ns) = (c = n \<and> startswith cs ns)"

fun str_contains :: "pystr \<Rightarrow> pystr \<Rightarrow> bool" where
  "str_contains [] needle = (needle = [])"
| "str_contains (c # cs) needle = (startswith (c # cs) needle \<or> str_contains cs needle)"

text \<open>\<^verbatim>\<open>str(n)\<close> on an integer, as the f-string \<^verbatim>\<open>f"RC:{result.returncode}"\<close> needs it.\<close>

fun str_nat :: "nat \<Rightarrow> pystr" where
  "str_nat n = (if n < 10 then [48 + n] else str_nat (n div 10) @ [48 + n mod 10])"

declare str_nat.simps [simp del]

definition str_int :: "int \<Rightarrow> pystr" where
  "str_int i = (if i < 0 then 45 # str_nat (nat (- i)) else str_nat (nat i))"

subsection \<open>Paths, JSON values, exceptions\<close>

text \<open>A \<^verbatim>\<open>pathlib.Path\<close> is its list of components; \<open>joinpath\<close> is the operator \<^verbatim>\<open>/\<close>.\<close>

type_synonym path = "pystr list"

definition joinpath :: "path \<Rightarrow> pystr \<Rightarrow> path" where
  "joinpath p name = p @ [name]"

text \<open>
  What \<^verbatim>\<open>json.load\<close> returns: a float is kept as its literal, since no operation of
  the hook looks inside one; an object (a Python dict) is an association list, read
  with \<open>map_of\<close>.
\<close>

datatype json =
    JNull
  | JBool bool
  | JInt int
  | JFloat pystr
  | JStr pystr
  | JArr "json list"
  | JObj "(pystr \<times> json) list"

text \<open>
  The exceptions that occur. \<open>BuildErrorException\<close> is the class the source
  declares (a \<^verbatim>\<open>RuntimeError\<close> with a message); \<open>JSONDecodeError\<close> is the library's
  class (a \<^verbatim>\<open>ValueError\<close>) with its three constructor arguments \<^verbatim>\<open>(msg, doc, pos)\<close>;
  the others are raised by the interpreter or the operating system and only pass
  through. \<^verbatim>\<open>FileNotFoundError\<close> and \<^verbatim>\<open>PermissionError\<close> are \<open>OSError\<close>;
  \<open>UnicodeEncodeError\<close> carries the string that could not be encoded.
\<close>

datatype exn =
    BuildErrorException pystr
  | JSONDecodeError pystr pystr nat
  | OSError pystr
  | TypeError
  | KeyError pystr
  | UnicodeDecodeError pystr
  | UnicodeEncodeError pystr
  | RecursionError
  | AssertionError

subsection \<open>The outside world and the process state\<close>

text \<open>
  What \<^verbatim>\<open>subprocess.run(..., capture_output=True, text=True, encoding="utf-8")\<close>
  returns: the exit code and the two captured outputs, decoded. \<open>stdout\<close> and
  \<open>stderr\<close> read them as \<^verbatim>\<open>str\<close>.
\<close>

record CompletedProcess =
  returncode :: int
  stdout_decoded :: utf8_text
  stderr_decoded :: utf8_text

definition stdout :: "CompletedProcess \<Rightarrow> pystr" where
  "stdout result = text_of (stdout_decoded result)"

definition stderr :: "CompletedProcess \<Rightarrow> pystr" where
  "stderr result = text_of (stderr_decoded result)"

text \<open>The arguments of one \<^verbatim>\<open>subprocess.run\<close> call.\<close>

record invocation =
  args :: "pystr list"
  executable :: pystr
  run_cwd :: pystr

text \<open>
  \<open>PACKAGE_DIR\<close> is the directory of the script; \<open>fspath\<close> is \<^verbatim>\<open>str\<close> on a path and
  \<open>str_json\<close> is \<^verbatim>\<open>str\<close> on a JSON value that is not a string (both library
  functions, taken as parameters); \<open>windows\<close> tells which \<^verbatim>\<open>os.linesep\<close> the platform
  has. \<open>py_open\<close> tells whether opening a file raises, \<open>json_load\<close> is the outcome of
  \<^verbatim>\<open>json.load\<close> on the opened manifest (a value, or whatever it raises: a
  \<^verbatim>\<open>JSONDecodeError\<close>, a \<^verbatim>\<open>UnicodeDecodeError\<close> for a body that is not UTF-8, a
  \<^verbatim>\<open>RecursionError\<close> for a body nested too deeply), and \<open>subprocess_run\<close> the outcome
  of each possible invocation (a result, or the exception raised when the program cannot
  be started). \<open>is_dir k p\<close> is \<^verbatim>\<open>p.is_dir()\<close> after \<open>k\<close> subprocesses have run, and
  \<open>chdir_error k p\<close> is what \<^verbatim>\<open>os.chdir(p)\<close> raises then, if anything: subprocesses
  change the file system, and may remove a directory.
\<close>

record env =
  PACKAGE_DIR :: path
  fspath :: "path \<Rightarrow> pystr"
  str_json :: "json \<Rightarrow> pystr"
  windows :: bool
  py_open :: "path \<Rightarrow> exn option"
  json_load :: "exn + json"
  subprocess_run :: "invocation \<Rightarrow> exn + CompletedProcess"
  is_dir :: "nat \<Rightarrow> path \<Rightarrow> bool"
  chdir_error :: "nat \<Rightarrow> path \<Rightarrow> exn option"

text \<open>\<^verbatim>\<open>os.linesep\<close>.\<close>

definition linesep :: "env \<Rightarrow> pystr" where
  "linesep E = (if windows E then [13, 10] else [10])"

text \<open>
  The log stream: every \<^verbatim>\<open>write\<close> appends its argument to \<open>written\<close>, every
  \<^verbatim>\<open>flush\<close> is counted.
\<close>

record stream =
  writable :: bool
  written :: "pystr list"
  flushes :: nat

record state =
  cwd :: path
  log_file :: stream
  calls :: "invocation list"

subsection \<open>Statements that may raise\<close>

type_synonym 'a action = "state \<Rightarrow> (exn + 'a) \<times> state"

definition return :: "'a \<Rightarrow> 'a action" where
  "return a s = (Inr a, s)"

definition raise :: "exn \<Rightarrow> 'a action" where
  "raise e s = (Inl e, s)"

text \<open>Sequencing: the second statement runs only when the first did not raise.\<close>

definition andthen :: "'a action \<Rightarrow> ('a \<Rightarrow> 'b action) \<Rightarrow> 'b action" where
  "andthen m f s = (case m s of (Inl e, s') \<Rightarrow> (Inl e, s') | (Inr a, s') \<Rightarrow> f a s')"

text \<open>
  \<^verbatim>\<open>try: body except json.decoder.JSONDecodeError as exc: handler\<close>: only that
  class is caught, every other exception passes.
\<close>

definition try_except_JSONDecodeError ::
    "'a action \<Rightarrow> (pystr \<Rightarrow> pystr \<Rightarrow> nat \<Rightarrow> 'a action) \<Rightarrow> 'a action" where
  "try_except_JSONDecodeError body handler s =
     (case body s of
        (Inl (JSONDecodeError m d p), s') \<Rightarrow> handler m d p s'
      | (r, s') \<Rightarrow> (r, s'))"

text \<open>
  \<^verbatim>\<open>try: body finally: fin\<close>: \<open>fin\<close> runs on the state the body left, whether the
  body raised or not; an exception of \<open>fin\<close> replaces the body's outcome.
\<close>

definition try_finally :: "'a action \<Rightarrow> unit action \<Rightarrow> 'a action" where
  "try_finally body fin s =
     (case body s of (r, s') \<Rightarrow>
        (case fin s' of (Inl e, s'') \<Rightarrow> (Inl e, s'') | (Inr u, s'') \<Rightarrow> (r, s'')))"

text \<open>
  \<^verbatim>\<open>os.getcwd()\<close> and \<^verbatim>\<open>os.chdir(p)\<close>. The second raises when the directory cannot
  be entered, and then leaves the working directory as it was.
\<close>

definition os_getcwd :: "path action" where
  "os_getcwd s = (Inr (cwd s), s)"

definition os_chdir :: "env \<Rightarrow> path \<Rightarrow> unit action" where
  "os_chdir E p s =
     (case chdir_error E (length (calls s)) p of
        Some e \<Rightarrow> (Inl e, s)
      | None \<Rightarrow> (Inr (), s\<lparr>cwd := p\<rparr>))"

text \<open>
  \<^verbatim>\<open>with open(p, ...) as f: body\<close>: opening may raise, and then the body does not
  run. Leaving the block closes the file; the hook makes no call on a file it has
  closed, so the closing is not part of the state.
\<close>

definition with_open :: "env \<Rightarrow> path \<Rightarrow> 'a action \<Rightarrow> 'a action" where
  "with_open E p body = (case py_open E p of Some e \<Rightarrow> raise e | None \<Rightarrow> body)"

text \<open>
  \<^verbatim>\<open>subprocess.run(...)\<close>: the call is recorded, then it returns a
  \<open>CompletedProcess\<close> or raises.
\<close>

definition run_subprocess :: "env \<Rightarrow> invocation \<Rightarrow> CompletedProcess action" where
  "run_subprocess E cmd s = (subprocess_run E cmd, s\<lparr>calls := calls s @ [cmd]\<rparr>)"

definition path_is_dir :: "env \<Rightarrow> path \<Rightarrow> bool action" where
  "path_is_dir E p s = (Inr (is_dir E (length (calls s)) p), s)"

subsection \<open>Operations on the parsed manifest\<close>

text \<open>
  \<^verbatim>\<open>key in pkg_desc\<close>: key membership on a dict, element membership on a list, the
  substring test on a string; the other JSON values are not containers and the test
  raises \<^verbatim>\<open>TypeError\<close>.
\<close>

definition py_contains :: "json \<Rightarrow> pystr \<Rightarrow> exn + bool" where
  "py_contains d key =
     (case d of
        JObj kvs \<Rightarrow> Inr (key \<in> set (map fst kvs))
      | JArr xs \<Rightarrow> Inr (JStr key \<in> set xs)
      | JStr text \<Rightarrow> Inr (str_contains text key)
      | _ \<Rightarrow> Inl TypeError)"

text \<open>\<^verbatim>\<open>pkg_desc[key]\<close> with a string key: defined on a dict only.\<close>

definition py_getitem :: "json \<Rightarrow> pystr \<Rightarrow> exn + json" where
  "py_getitem d key =
     (case d of
        JObj kvs \<Rightarrow> (case map_of kvs key of Some v \<Rightarrow> Inr v | None \<Rightarrow> Inl (KeyError key))
      | JArr xs \<Rightarrow> Inl TypeError
      | JStr text \<Rightarrow> Inl TypeError
      | _ \<Rightarrow> Inl TypeError)"

text \<open>A value inside an f-string: a string stands for itself, anything else for its \<^verbatim>\<open>str\<close>.\<close>

definition py_format :: "env \<Rightarrow> json \<Rightarrow> pystr" where
  "py_format E v = (case v of JStr text \<Rightarrow> text | _ \<Rightarrow> str_json E v)"

definition lift :: "exn + 'a \<Rightarrow> 'a action" where
  "lift r = (case r of Inl e \<Rightarrow> raise e | Inr a \<Rightarrow> return a)"

subsection \<open>Module constants\<close>

definition PACKAGE_MGR :: pystr where
  "PACKAGE_MGR = ustr ''npm''"

definition PACKAGE_NAME :: pystr where
  "PACKAGE_NAME = ustr ''streamlit-javascript''"

definition STREAMLIT_VERSION :: pystr where
  "STREAMLIT_VERSION = ustr ''1.42.0''"

text \<open>The three directories that \<^verbatim>\<open>_run\<close> derives from \<open>PACKAGE_DIR\<close>.\<close>

definition frontend_dir :: "env \<Rightarrow> path" where
  "frontend_dir E = joinpath (joinpath (PACKAGE_DIR E) (ustr ''streamlit_javascript'')) (ustr ''frontend'')"

definition modules_dir :: "env \<Rightarrow> path" where
  "modules_dir E = joinpath (frontend_dir E) (ustr ''node_modules'')"

definition build_dir :: "env \<Rightarrow> path" where
  "build_dir E = joinpath (frontend_dir E) (ustr ''build'')"

subsection \<open>Logging\<close>

text \<open>
  \<^verbatim>\<open>log_file.write(text)\<close> encodes the text before it takes it: a text that cannot be
  encoded raises \<^verbatim>\<open>UnicodeEncodeError\<close> and nothing of it is written.
\<close>

definition stream_write :: "stream \<Rightarrow> pystr \<Rightarrow> exn + stream" where
  "stream_write f text =
     (if encodable text then Inr (f\<lparr>written := written f @ [text]\<rparr>)
      else Inl (UnicodeEncodeError text))"

definition stream_flush :: "stream \<Rightarrow> stream" where
  "stream_flush f = f\<lparr>flushes := Suc (flushes f)\<rparr>"

text \<open>
  The loop of \<^verbatim>\<open>_msg_log\<close> over the lines of the message; it ends at the first
  \<^verbatim>\<open>write\<close> that raises, with the lines written before it in the stream.
  \<^verbatim>\<open>" " * indent\<close> is empty for a negative \<open>indent\<close>.
\<close>

fun write_lines :: "env \<Rightarrow> int \<Rightarrow> pystr list \<Rightarrow> stream \<Rightarrow> (exn + unit) \<times> stream" where
  "write_lines E indent [] f = (Inr (), f)"
| "write_lines E indent (line # rest) f =
     (if strip line \<noteq> [] then
        (case stream_write f (replicate (nat indent) 32 @ line @ linesep E) of
           Inl e \<Rightarrow> (Inl e, f)
         | Inr f' \<Rightarrow> write_lines E indent rest f')
      else write_lines E indent rest f)"

text \<open>\<^verbatim>\<open>_msg_log\<close>: the assertion, the loop, and the flush that follows a loop that ended.\<close>

definition msg_log :: "env \<Rightarrow> pystr \<Rightarrow> int \<Rightarrow> unit action" where
  "msg_log E msg indent s =
     (if \<not> writable (log_file s) then (Inl AssertionError, s)
      else
        (case write_lines E indent (splitlines msg) (log_file s) of
           (Inl e, f) \<Rightarrow> (Inl e, s\<lparr>log_file := f\<rparr>)
         | (Inr u, f) \<Rightarrow> (Inr (), s\<lparr>log_file := stream_flush f\<rparr>)))"

definition msg_run :: "env \<Rightarrow> CompletedProcess \<Rightarrow> int \<Rightarrow> CompletedProcess action" where
  "msg_run E result indent =
     andthen (msg_log E (ustr ''RC:'' @ str_int (returncode result)) indent) (\<lambda>u.
     andthen (msg_log E (ustr ''STDOUT:'') indent) (\<lambda>u.
     andthen (msg_log E (stdout result) (indent + 2)) (\<lambda>u.
     andthen (msg_log E (ustr ''STDERR:'') indent) (\<lambda>u.
     andthen (msg_log E (stderr result) (indent + 2)) (\<lambda>u.
     return result)))))"

subsection \<open>Pre-install checks\<close>

definition package_json_path :: "env \<Rightarrow> path" where
  "package_json_path E = joinpath (frontend_dir E) (ustr ''package.json'')"

text \<open>
  \<^verbatim>\<open>_check_package_json\<close>. The file is opened before the \<^verbatim>\<open>try\<close> block is entered;
  \<^verbatim>\<open>json.load\<close> and the version test are inside it. The handler raises a new
  \<^verbatim>\<open>JSONDecodeError\<close> with the manifest path in the place of the constructor's second
  argument and the position of the one it caught. The subscript \<^verbatim>\<open>pkg_desc["version"]\<close>
  is evaluated twice, once for the comparison and once for the message.
\<close>

definition check_package_json :: "env \<Rightarrow> unit action" where
  "check_package_json E =
     andthen (msg_log E (ustr ''Checking package.json version...'') 0) (\<lambda>u.
     with_open E (package_json_path E)
       (try_except_JSONDecodeError
          (andthen (lift (json_load E)) (\<lambda>pkg_desc.
           andthen (lift (py_contains pkg_desc (ustr ''version''))) (\<lambda>present.
           if \<not> present then
             msg_log E (ustr ''WARNING: package.json:version is missing, should be ''
                          @ STREAMLIT_VERSION) 0
           else
             andthen (lift (py_getitem pkg_desc (ustr ''version''))) (\<lambda>v.
             if v \<noteq> JStr STREAMLIT_VERSION then
               andthen (lift (py_getitem pkg_desc (ustr ''version''))) (\<lambda>v'.
               msg_log E (ustr ''WARNING: package.json:version should be ''
                            @ STREAMLIT_VERSION @ ustr '' not '' @ py_format E v') 0)
             else return ()))))
          (\<lambda>m d p.
             andthen (msg_log E (ustr ''Unable to read package.json file - syntax error'') 0) (\<lambda>u.
             raise (JSONDecodeError (ustr ''package.json: '' @ m)
                      (fspath E (package_json_path E)) p)))))"

definition check_need_protobuf :: "env \<Rightarrow> unit action" where
  "check_need_protobuf E = msg_log E (PACKAGE_NAME @ ustr '' does not use protobuf...'') 0"

definition show_msg_if_build_dir_exists :: "env \<Rightarrow> unit action" where
  "show_msg_if_build_dir_exists E =
     andthen (msg_log E (ustr ''Checking if frontend has already been built...'') 0) (\<lambda>u.
     andthen (path_is_dir E (build_dir E)) (\<lambda>found.
     if found then msg_log E (ustr ''Found build directory'') 2 else return ()))"

definition show_msg_if_modules_dir_exists :: "env \<Rightarrow> unit action" where
  "show_msg_if_modules_dir_exists E =
     andthen (msg_log E (ustr ''Checking if node_modules exists...'') 0) (\<lambda>u.
     andthen (path_is_dir E (modules_dir E)) (\<lambda>found.
     if found then msg_log E (ustr ''Found node_modules directory'') 2 else return ()))"

text \<open>The fixed argument lists of the subprocesses.\<close>

definition node_version_cmd :: "env \<Rightarrow> invocation" where
  "node_version_cmd E =
     \<lparr>args = [ustr ''node'', ustr ''--version''], executable = ustr ''node'',
      run_cwd = fspath E (PACKAGE_DIR E)\<rparr>"

definition pkgmgr_version_cmd :: "env \<Rightarrow> invocation" where
  "pkgmgr_version_cmd E =
     \<lparr>args = [PACKAGE_MGR, ustr ''--version''], executable = PACKAGE_MGR,
      run_cwd = fspath E (PACKAGE_DIR E)\<rparr>"

definition corepack_enable_cmd :: "env \<Rightarrow> invocation" where
  "corepack_enable_cmd E =
     \<lparr>args = [ustr ''corepack'', ustr ''enable''], executable = ustr ''corepack'',
      run_cwd = fspath E (PACKAGE_DIR E)\<rparr>"

definition install_cmd :: "env \<Rightarrow> invocation" where
  "install_cmd E =
     \<lparr>args = [PACKAGE_MGR, ustr ''install''], executable = PACKAGE_MGR,
      run_cwd = fspath E (frontend_dir E)\<rparr>"

definition build_cmd :: "env \<Rightarrow> invocation" where
  "build_cmd E =
     \<lparr>args = [PACKAGE_MGR, ustr ''run'', ustr ''build''], executable = PACKAGE_MGR,
      run_cwd = fspath E (frontend_dir E)\<rparr>"

definition audit_cmd :: "env \<Rightarrow> invocation" where
  "audit_cmd E =
     \<lparr>args = [PACKAGE_MGR, ustr ''audit''], executable = PACKAGE_MGR,
      run_cwd = fspath E (frontend_dir E)\<rparr>"

definition check_node_installed :: "env \<Rightarrow> CompletedProcess action" where
  "check_node_installed E =
     andthen (msg_log E (ustr ''Checking node is installed...'') 0) (\<lambda>u.
     andthen (run_subprocess E (node_version_cmd E)) (\<lambda>completed.
     andthen (msg_run E completed 2) (\<lambda>result.
     if returncode result \<noteq> 0 then
       raise (BuildErrorException
                (ustr ''Could not find node - it is required for React components''))
     else return result)))"

definition check_pkgmgr_installed :: "env \<Rightarrow> CompletedProcess action" where
  "check_pkgmgr_installed E =
     andthen (msg_log E (ustr ''Checking '' @ PACKAGE_MGR @ ustr '' is installed...'') 0) (\<lambda>u.
     andthen (run_subprocess E (pkgmgr_version_cmd E)) (\<lambda>completed.
     andthen (msg_run E completed 2) (\<lambda>result.
     andthen
       (if PACKAGE_MGR = ustr ''yarn'' then
          andthen (msg_log E (ustr ''Checking yarn corepack is installed'') 0) (\<lambda>u.
          andthen (run_subprocess E (corepack_enable_cmd E)) (\<lambda>completed'.
          andthen (msg_run E completed' 2) (\<lambda>result'.
          if returncode result' \<noteq> 0 then
            raise (BuildErrorException
                     (ustr ''Could not find corepack/'' @ PACKAGE_MGR
                        @ ustr '' - it is required to install node packages''))
          else return result')))
        else return result) (\<lambda>result.
     if returncode result \<noteq> 0 then
       raise (BuildErrorException
                (ustr ''Could not find '' @ PACKAGE_MGR
                   @ ustr '' - it is required to install node packages''))
     else return result))))"

subsection \<open>Install, audit, build, and the final check\<close>

definition run_install :: "env \<Rightarrow> CompletedProcess action" where
  "run_install E =
     andthen (msg_log E (ustr ''Running '' @ PACKAGE_MGR @ ustr '' install...'') 0) (\<lambda>u.
     andthen (run_subprocess E (install_cmd E)) (\<lambda>completed.
     msg_run E completed 2))"

definition run_build :: "env \<Rightarrow> CompletedProcess action" where
  "run_build E =
     andthen (msg_log E (ustr ''Running '' @ PACKAGE_MGR @ ustr '' run build...'') 0) (\<lambda>u.
     andthen (run_subprocess E (build_cmd E)) (\<lambda>completed.
     msg_run E completed 2))"

definition run_npm_audit :: "env \<Rightarrow> CompletedProcess action" where
  "run_npm_audit E =
     andthen (msg_log E (ustr ''Running npm audit...'') 0) (\<lambda>u.
     andthen (run_subprocess E (audit_cmd E)) (\<lambda>completed.
     msg_run E completed 2))"

definition check_build_output_ok :: "env \<Rightarrow> unit action" where
  "check_build_output_ok E =
     andthen (msg_log E (ustr ''Checking if frontend was built...'') 0) (\<lambda>u.
     andthen (path_is_dir E (build_dir E)) (\<lambda>found.
     if found then msg_log E (ustr ''Found build directory'') 2
     else raise (BuildErrorException (ustr ''Failed to create output directory''))))"

subsection \<open>The orchestration\<close>

text \<open>\<^verbatim>\<open>_run\<close>: the checks, the install, the audit when the installer suggests it, the build.\<close>

definition run :: "env \<Rightarrow> unit action" where
  "run E =
     andthen (check_package_json E) (\<lambda>u.
     andthen (check_need_protobuf E) (\<lambda>u.
     andthen (show_msg_if_build_dir_exists E) (\<lambda>u.
     andthen (show_msg_if_modules_dir_exists E) (\<lambda>u.
     andthen (check_node_installed E) (\<lambda>node.
     andthen (check_pkgmgr_installed E) (\<lambda>pkgmgr.
     andthen (run_install E) (\<lambda>result.
     andthen (if str_contains (stdout result) (ustr ''npm audit fix'')
              then andthen (run_npm_audit E) (\<lambda>audit. return ())
              else return ()) (\<lambda>u.
     andthen (run_build E) (\<lambda>built.
     check_build_output_ok E)))))))))"

text \<open>
  \<^verbatim>\<open>initialize\<close>, the entry point. Its two arguments are not used. The log is opened
  under the relative name \<^verbatim>\<open>setup.log\<close> in mode \<^verbatim>\<open>"w"\<close>: a fresh, writable stream,
  stored in \<^verbatim>\<open>self.log_file\<close>.
\<close>

definition fresh_log :: stream where
  "fresh_log = \<lparr>writable = True, written = [], flushes = 0\<rparr>"

definition set_log_file :: "stream \<Rightarrow> unit action" where
  "set_log_file f s = (Inr (), s\<lparr>log_file := f\<rparr>)"

definition initialize :: "env \<Rightarrow> pystr \<Rightarrow> 'b \<Rightarrow> unit action" where
  "initialize E version build_data =
     andthen os_getcwd (\<lambda>original_directory.
     try_finally
       (andthen (os_chdir E (PACKAGE_DIR E)) (\<lambda>u.
        with_open E [ustr ''setup.log'']
          (andthen (set_log_file fresh_log) (\<lambda>u. run E))))
       (os_chdir E original_directory))"

subsection \<open>Notions used to state the properties\<close>

text \<open>\<^verbatim>\<open>isinstance(e, BuildErrorException)\<close>.\<close>

fun is_BuildErrorException :: "exn \<Rightarrow> bool" where
  "is_BuildErrorException (BuildErrorException msg) = True"
| "is_BuildErrorException e = False"

text \<open>A line without any line boundary in it.\<close>

definition no_linebreak :: "pystr \<Rightarrow> bool" where
  "no_linebreak line = (\<forall>c\<in>set line. \<not> is_linebreak c)"

text \<open>
  The lines of a message that \<^verbatim>\<open>_msg_log\<close> writes: those of \<^verbatim>\<open>splitlines\<close> that hold a
  character other than whitespace.
\<close>

definition nonblank_lines :: "pystr \<Rightarrow> pystr list" where
  "nonblank_lines msg = filter (\<lambda>line. \<exists>c\<in>set line. \<not> is_space c) (splitlines msg)"

text \<open>
  What logging a message comes to on a writable log: the first of its lines that cannot
  be encoded, if there is one, makes \<^verbatim>\<open>write\<close> raise.
\<close>

definition log_outcome :: "env \<Rightarrow> int \<Rightarrow> pystr \<Rightarrow> exn + unit" where
  "log_outcome E indent msg =
     (case dropWhile encodable (nonblank_lines msg) of
        [] \<Rightarrow> Inr ()
      | line # rest \<Rightarrow> Inl (UnicodeEncodeError (replicate (nat indent) 32 @ line @ linesep E)))"

text \<open>The subprocess invocations that a run adds to those made before it.\<close>

definition invoked :: "state \<Rightarrow> state \<Rightarrow> invocation list" where
  "invoked s s' = drop (length (calls s)) (calls s')"

text \<open>
  The same outside world, except that the install step exits with \<open>rc_install\<close> and the
  build step with \<open>rc_build\<close> (when they can be started at all).
\<close>

definition exit_with :: "int \<Rightarrow> exn + CompletedProcess \<Rightarrow> exn + CompletedProcess" where
  "exit_with rc outcome = (case outcome of Inl e \<Rightarrow> Inl e | Inr r \<Rightarrow> Inr (r\<lparr>returncode := rc\<rparr>))"

definition with_exit_codes :: "env \<Rightarrow> int \<Rightarrow> int \<Rightarrow> env" where
  "with_exit_codes E rc_install rc_build =
     E\<lparr>subprocess_run := (\<lambda>cmd.
          if cmd = install_cmd E then exit_with rc_install (subprocess_run E cmd)
          else if cmd = build_cmd E then exit_with rc_build (subprocess_run E cmd)
          else subprocess_run E cmd)\<rparr>"

subsection \<open>Concrete worlds\<close>

text \<open>A subprocess that returned, with its exit code and its two outputs in ASCII.\<close>

definition completed :: "int \<Rightarrow> string \<Rightarrow> string \<Rightarrow> CompletedProcess" where
  "completed rc out err =
     \<lparr>returncode = rc, stdout_decoded = utf8 out, stderr_decoded = utf8 err\<rparr>"

text \<open>
  A world in which everything goes well: the manifest declares the expected version,
  every subprocess exits with 0, every directory asked for exists. The others differ
  from it in one answer each.
\<close>

definition example_env :: env where
  "example_env =
     \<lparr>PACKAGE_DIR = [ustr ''pkg''],
      fspath = (\<lambda>p. concat (map (\<lambda>name. 47 # name) p)),
      str_json = (\<lambda>v. ustr ''<value>''),
      windows = False,
      py_open = (\<lambda>p. None),
      json_load = Inr (JObj [(ustr ''version'', JStr (ustr ''1.42.0''))]),
      subprocess_run = (\<lambda>cmd. Inr (completed 0 ''ok'' [])),
      is_dir = (\<lambda>k p. True),
      chdir_error = (\<lambda>k p. None)\<rparr>"

definition example_state :: state where
  "example_state = \<lparr>cwd = [ustr ''home''], log_file = fresh_log, calls = []\<rparr>"

text \<open>The manifest is the one character \<^verbatim>\<open>{\<close>.\<close>

definition bad_manifest_env :: env where
  "bad_manifest_env =
     example_env\<lparr>json_load :=
       Inl (JSONDecodeError (ustr ''Expecting property name enclosed in double quotes'')
              (ustr ''{'') 1)\<rparr>"

text \<open>The manifest is not UTF-8: \<^verbatim>\<open>json.load\<close> cannot even decode it.\<close>

definition undecodable_manifest_env :: env where
  "undecodable_manifest_env =
     example_env\<lparr>json_load :=
       Inl (UnicodeDecodeError (ustr ''utf-8 codec cannot decode byte 0xff in position 0''))\<rparr>"

text \<open>The manifest is the number \<^verbatim>\<open>5\<close>: valid JSON, but not an object.\<close>

definition scalar_manifest_env :: env where
  "scalar_manifest_env = example_env\<lparr>json_load := Inr (JInt 5)\<rparr>"

text \<open>The manifest is \<^verbatim>\<open>{"version": "1\n2"}\<close>: the version string holds a line feed.\<close>

definition multiline_version_env :: env where
  "multiline_version_env =
     example_env\<lparr>json_load := Inr (JObj [(ustr ''version'', JStr (ustr ''1'' @ [10] @ ustr ''2''))])\<rparr>"

text \<open>
  The manifest is \<^verbatim>\<open>{"version": "\ud800"}\<close>: the version string is one surrogate code
  point.
\<close>

definition surrogate_version_env :: env where
  "surrogate_version_env =
     example_env\<lparr>json_load := Inr (JObj [(ustr ''version'', JStr [55296])])\<rparr>"

text \<open>The manifest is \<^verbatim>\<open>{"version": "1.0.0"}\<close>.\<close>

definition old_version_env :: env where
  "old_version_env =
     example_env\<lparr>json_load := Inr (JObj [(ustr ''version'', JStr (ustr ''1.0.0''))])\<rparr>"

text \<open>There is no manifest file.\<close>

definition no_manifest_env :: env where
  "no_manifest_env =
     example_env\<lparr>py_open := (\<lambda>p.
       if p = package_json_path example_env
       then Some (OSError (ustr ''No such file or directory: package.json''))
       else None)\<rparr>"

text \<open>
  There is no \<^verbatim>\<open>node\<close> program on the search path: \<^verbatim>\<open>subprocess.run\<close> raises
  \<^verbatim>\<open>FileNotFoundError\<close>, a subclass of \<^verbatim>\<open>OSError\<close>, instead of returning.
\<close>

definition node_missing_env :: env where
  "node_missing_env =
     example_env\<lparr>subprocess_run := (\<lambda>cmd.
       if executable cmd = ustr ''node''
       then Inl (OSError (ustr ''No such file or directory: node''))
       else Inr (completed 0 ''ok'' []))\<rparr>"

text \<open>The build produces no output directory.\<close>

definition no_output_env :: env where
  "no_output_env = example_env\<lparr>is_dir := (\<lambda>k p. False)\<rparr>"

text \<open>The installer's output recommends \<^verbatim>\<open>npm audit fix\<close>.\<close>

definition audit_hint_env :: env where
  "audit_hint_env =
     example_env\<lparr>subprocess_run := (\<lambda>cmd.
       Inr (completed 0 ''run `npm audit fix` to fix them'' []))\<rparr>"

text \<open>
  The first subprocess removes the directory the process was started in: from then on
  \<^verbatim>\<open>os.chdir\<close> into it raises \<^verbatim>\<open>FileNotFoundError\<close>.
\<close>

definition removed_directory_env :: env where
  "removed_directory_env =
     example_env\<lparr>chdir_error := (\<lambda>k p.
       if 0 < k \<and> p = [ustr ''home'']
       then Some (OSError (ustr ''No such file or directory: home''))
       else None)\<rparr>"

section \<open>Properties\<close>

subsection \<open>How each statement acts on the result and on the state\<close>

lemma dropWhile_keeps_other:
  "(\<exists>x\<in>set (dropWhile P xs). \<not> P x) \<longleftrightarrow> (\<exists>x\<in>set xs. \<not> P x)"
  by (induction xs) auto

lemma strip_nonempty_iff: "strip line \<noteq> [] \<longleftrightarrow> (\<exists>c\<in>set line. \<not> is_space c)"
  by (simp add: strip_def dropWhile_eq_Nil_conv dropWhile_keeps_other)

lemma is_linebreak_cr_lf: "is_linebreak 13" "is_linebreak 10"
  by (simp_all add: is_linebreak_def)

lemma splitlines_from_concat:
  "concat (splitlines_from cur rest) = cur @ filter (\<lambda>c. \<not> is_linebreak c) rest"
  by (induction cur rest rule: splitlines_from.induct) (auto simp: is_linebreak_cr_lf)

lemma splitlines_from_one_line:
  "\<forall>c\<in>set rest. \<not> is_linebreak c \<Longrightarrow> cur @ rest \<noteq> [] \<Longrightarrow> splitlines_from cur rest = [cur @ rest]"
  by (induction cur rest rule: splitlines_from.induct) (auto simp: is_linebreak_cr_lf)

lemma no_linebreak_simps:
  "no_linebreak []" "no_linebreak (xs @ [c]) = (no_linebreak xs \<and> \<not> is_linebreak c)"
  by (auto simp: no_linebreak_def)

lemma splitlines_from_no_linebreak:
  "no_linebreak cur \<Longrightarrow> list_all no_linebreak (splitlines_from cur rest)"
  by (induction cur rest rule: splitlines_from.induct) (simp_all add: no_linebreak_simps)

lemma splitlines_no_linebreak: "list_all no_linebreak (splitlines msg)"
  by (simp add: splitlines_def splitlines_from_no_linebreak no_linebreak_simps)

lemma splitlines_one_line:
  "no_linebreak msg \<Longrightarrow> msg \<noteq> [] \<Longrightarrow> splitlines msg = [msg]"
  using splitlines_from_one_line [of msg "[]"] by (simp add: splitlines_def no_linebreak_def)

lemma replicate_two: "replicate 2 x = [x, x]"
  by (simp add: numeral_2_eq_2)

lemma splitlines_chars: "line \<in> set (splitlines msg) \<Longrightarrow> set line \<subseteq> set msg"
proof -
  assume "line \<in> set (splitlines msg)"
  then have "set line \<subseteq> set (concat (splitlines msg))" by auto
  also have "\<dots> \<subseteq> set msg" by (auto simp: splitlines_def splitlines_from_concat)
  finally show ?thesis .
qed

lemma text_of_utf8: "text_of (utf8 cs) = ustr cs"
  by (rule utf8.rep_eq)

lemma encodable_text_of: "encodable (text_of t)"
  using text_of [of t] by simp

lemma encodable_append: "encodable (xs @ ys) = (encodable xs \<and> encodable ys)"
  by (auto simp: encodable_def)

lemma encodable_Nil: "encodable []"
  by (simp add: encodable_def)

lemma encodable_ustr: "encodable (ustr cs)"
  using encodable_text_of [of "utf8 cs"] by (simp add: text_of_utf8)

lemma encodable_spaces: "encodable (replicate n 32)"
  by (simp add: encodable_def is_surrogate_def)

lemma encodable_linesep: "encodable (linesep E)"
  by (simp add: encodable_def is_surrogate_def linesep_def)

lemma encodable_str_nat: "encodable (str_nat n)"
proof (induction n rule: str_nat.induct)
  case (1 n)
  show ?case
  proof (cases "n < 10")
    case True
    then show ?thesis by (subst str_nat.simps) (simp add: encodable_def is_surrogate_def)
  next
    case False
    have "n mod 10 < 10" by simp
    then have "encodable [48 + n mod 10]" by (simp add: encodable_def is_surrogate_def)
    with False 1 show ?thesis by (subst str_nat.simps) (simp add: encodable_append)
  qed
qed

lemma encodable_str_int: "encodable (str_int i)"
  using encodable_str_nat
  by (simp add: str_int_def encodable_def is_surrogate_def)

lemma encodable_constants:
  "encodable PACKAGE_MGR" "encodable PACKAGE_NAME" "encodable STREAMLIT_VERSION"
  by (simp_all add: PACKAGE_MGR_def PACKAGE_NAME_def STREAMLIT_VERSION_def encodable_ustr)

lemma encodable_outputs: "encodable (stdout result)" "encodable (stderr result)"
  by (simp_all add: stdout_def stderr_def encodable_text_of)

lemmas encodable_simps = encodable_append encodable_Nil encodable_ustr encodable_spaces
  encodable_linesep encodable_str_int encodable_constants encodable_outputs

lemma encodable_lines: "encodable msg \<Longrightarrow> list_all encodable (nonblank_lines msg)"
  using splitlines_chars [of _ msg]
  by (fastforce simp: nonblank_lines_def list_all_iff encodable_def)

lemma log_outcome_encodable: "encodable msg \<Longrightarrow> log_outcome E indent msg = Inr ()"
  using encodable_lines [of msg]
  by (simp add: log_outcome_def dropWhile_eq_Nil_conv [THEN iffD2] list_all_iff)

lemma write_lines_eq:
  "write_lines E indent ls f =
     (case dropWhile encodable (filter (\<lambda>line. \<exists>c\<in>set line. \<not> is_space c) ls) of
        [] \<Rightarrow> Inr ()
      | line # rest \<Rightarrow> Inl (UnicodeEncodeError (replicate (nat indent) 32 @ line @ linesep E)),
      f\<lparr>written := written f @
           map (\<lambda>line. replicate (nat indent) 32 @ line @ linesep E)
             (takeWhile encodable (filter (\<lambda>line. \<exists>c\<in>set line. \<not> is_space c) ls))\<rparr>)"
  by (induction ls arbitrary: f)
     (simp_all add: stream_write_def strip_nonempty_iff encodable_simps)

lemma msg_log_eq:
  assumes "writable (log_file s)"
  shows "msg_log E msg indent s =
     (log_outcome E indent msg,
      s\<lparr>log_file := (log_file s)
           \<lparr>written := written (log_file s) @
               map (\<lambda>line. replicate (nat indent) 32 @ line @ linesep E)
                 (takeWhile encodable (nonblank_lines msg)),
            flushes := (if log_outcome E indent msg = Inr () then Suc (flushes (log_file s))
                        else flushes (log_file s))\<rparr>\<rparr>)"
  using assms
  by (simp add: msg_log_def write_lines_eq log_outcome_def nonblank_lines_def stream_flush_def
        split: list.splits)

lemma fst_andthen: "fst (andthen m f s) = (case fst (m s) of Inl e \<Rightarrow> Inl e | Inr a \<Rightarrow> fst (f a (snd (m s))))"
  by (simp add: andthen_def split: prod.splits sum.splits)

lemma snd_andthen: "snd (andthen m f s) = (case fst (m s) of Inl e \<Rightarrow> snd (m s) | Inr a \<Rightarrow> snd (f a (snd (m s))))"
  by (simp add: andthen_def split: prod.splits sum.splits)

lemma proj_return: "fst (return a s) = Inr a" "snd (return a s) = s"
  and proj_raise: "fst (raise e s) = Inl e" "snd (raise e s) = s"
  and proj_lift: "fst (lift r s) = r" "snd (lift r s) = s"
  by (simp_all add: return_def raise_def lift_def split: sum.splits)

lemma proj_msg_log:
  "fst (msg_log E m i s) = (if writable (log_file s) then log_outcome E i m else Inl AssertionError)"
  "calls (snd (msg_log E m i s)) = calls s"
  "cwd (snd (msg_log E m i s)) = cwd s"
  "writable (log_file (snd (msg_log E m i s))) = writable (log_file s)"
  by (simp_all add: msg_log_def write_lines_eq log_outcome_def nonblank_lines_def stream_flush_def
        split: list.splits)

lemma proj_os_chdir:
  "fst (os_chdir E p s) =
     (case chdir_error E (length (calls s)) p of Some e \<Rightarrow> Inl e | None \<Rightarrow> Inr ())"
  "snd (os_chdir E p s) =
     (case chdir_error E (length (calls s)) p of Some e \<Rightarrow> s | None \<Rightarrow> s\<lparr>cwd := p\<rparr>)"
  by (simp_all add: os_chdir_def split: option.splits)

lemma proj_run_subprocess:
  "fst (run_subprocess E c s) = subprocess_run E c"
  "calls (snd (run_subprocess E c s)) = calls s @ [c]"
  "cwd (snd (run_subprocess E c s)) = cwd s"
  "log_file (snd (run_subprocess E c s)) = log_file s"
  by (simp_all add: run_subprocess_def)

lemma proj_path_is_dir:
  "fst (path_is_dir E p s) = Inr (is_dir E (length (calls s)) p)"
  "snd (path_is_dir E p s) = s"
  by (simp_all add: path_is_dir_def)

lemmas proj = fst_andthen snd_andthen proj_return proj_raise proj_lift proj_msg_log
  proj_run_subprocess proj_path_is_dir log_outcome_encodable encodable_simps

lemma proj_msg_run:
  "fst (msg_run E r i s) = (if writable (log_file s) then Inr r else Inl AssertionError)"
  "calls (snd (msg_run E r i s)) = calls s"
  "cwd (snd (msg_run E r i s)) = cwd s"
  "writable (log_file (snd (msg_run E r i s))) = writable (log_file s)"
  by (simp_all add: msg_run_def proj)

lemma fst_try_except:
  "fst (try_except_JSONDecodeError body h s) =
     (case fst (body s) of Inl (JSONDecodeError m d p) \<Rightarrow> fst (h m d p (snd (body s))) | r \<Rightarrow> r)"
  by (simp add: try_except_JSONDecodeError_def split: prod.splits sum.splits exn.splits)

lemma snd_try_except:
  "snd (try_except_JSONDecodeError body h s) =
     (case fst (body s) of Inl (JSONDecodeError m d p) \<Rightarrow> snd (h m d p (snd (body s))) | r \<Rightarrow> snd (body s))"
  by (simp add: try_except_JSONDecodeError_def split: prod.splits sum.splits exn.splits)

lemma fst_try_finally:
  "fst (try_finally body fin s) =
     (case fst (fin (snd (body s))) of Inl e \<Rightarrow> Inl e | Inr u \<Rightarrow> fst (body s))"
  by (simp add: try_finally_def split: prod.splits sum.splits)

lemma snd_try_finally:
  "snd (try_finally body fin s) = snd (fin (snd (body s)))"
  by (simp add: try_finally_def split: prod.splits sum.splits)

lemma fst_with_open:
  "fst (with_open E p body s) = (case py_open E p of Some e \<Rightarrow> Inl e | None \<Rightarrow> fst (body s))"
  by (simp add: with_open_def proj split: option.splits)

lemma snd_with_open:
  "snd (with_open E p body s) = (case py_open E p of Some e \<Rightarrow> s | None \<Rightarrow> snd (body s))"
  by (simp add: with_open_def proj split: option.splits)

lemmas proj2 = proj proj_msg_run fst_try_except snd_try_except fst_try_finally snd_try_finally
  fst_with_open snd_with_open

lemma check_package_json_frame:
  "calls (snd (check_package_json E s)) = calls s"
  "cwd (snd (check_package_json E s)) = cwd s"
  "writable (log_file (snd (check_package_json E s))) = writable (log_file s)"
  by (simp_all add: check_package_json_def proj2 split: sum.splits exn.splits option.splits)

lemma PACKAGE_MGR_not_yarn: "PACKAGE_MGR \<noteq> ustr ''yarn''"
  by (simp add: PACKAGE_MGR_def ustr_def)

lemma simple_steps_frame:
  "calls (snd (check_need_protobuf E s)) = calls s"
  "cwd (snd (check_need_protobuf E s)) = cwd s"
  "writable (log_file (snd (check_need_protobuf E s))) = writable (log_file s)"
  "fst (check_need_protobuf E s) = (if writable (log_file s) then Inr () else Inl AssertionError)"
  "calls (snd (show_msg_if_build_dir_exists E s)) = calls s"
  "cwd (snd (show_msg_if_build_dir_exists E s)) = cwd s"
  "writable (log_file (snd (show_msg_if_build_dir_exists E s))) = writable (log_file s)"
  "fst (show_msg_if_build_dir_exists E s) = (if writable (log_file s) then Inr () else Inl AssertionError)"
  "calls (snd (show_msg_if_modules_dir_exists E s)) = calls s"
  "cwd (snd (show_msg_if_modules_dir_exists E s)) = cwd s"
  "writable (log_file (snd (show_msg_if_modules_dir_exists E s))) = writable (log_file s)"
  "fst (show_msg_if_modules_dir_exists E s) = (if writable (log_file s) then Inr () else Inl AssertionError)"
  by (simp_all add: check_need_protobuf_def show_msg_if_build_dir_exists_def
        show_msg_if_modules_dir_exists_def proj2)

lemma check_node_installed_frame:
  "cwd (snd (check_node_installed E s)) = cwd s"
  "writable (log_file (snd (check_node_installed E s))) = writable (log_file s)"
  by (simp_all add: check_node_installed_def proj2 split: sum.splits)

lemma check_node_installed_effect:
  assumes "writable (log_file s)"
  shows "fst (check_node_installed E s) =
           (case subprocess_run E (node_version_cmd E) of
              Inl e \<Rightarrow> Inl e
            | Inr r \<Rightarrow> if returncode r \<noteq> 0
                       then Inl (BuildErrorException
                              (ustr ''Could not find node - it is required for React components''))
                       else Inr r)"
    and "calls (snd (check_node_installed E s)) = calls s @ [node_version_cmd E]"
  using assms by (simp_all add: check_node_installed_def proj2 split: sum.splits)

lemma check_pkgmgr_installed_frame:
  "cwd (snd (check_pkgmgr_installed E s)) = cwd s"
  "writable (log_file (snd (check_pkgmgr_installed E s))) = writable (log_file s)"
  by (simp_all add: check_pkgmgr_installed_def PACKAGE_MGR_not_yarn proj2 split: sum.splits)

lemma check_pkgmgr_installed_effect:
  assumes "writable (log_file s)"
  shows "fst (check_pkgmgr_installed E s) =
           (case subprocess_run E (pkgmgr_version_cmd E) of
              Inl e \<Rightarrow> Inl e
            | Inr r \<Rightarrow> if returncode r \<noteq> 0
                       then Inl (BuildErrorException
                              (ustr ''Could not find '' @ PACKAGE_MGR
                                @ ustr '' - it is required to install node packages''))
                       else Inr r)"
    and "calls (snd (check_pkgmgr_installed E s)) = calls s @ [pkgmgr_version_cmd E]"
  using assms
  by (simp_all add: check_pkgmgr_installed_def PACKAGE_MGR_not_yarn proj2 split: sum.splits)

lemma run_steps_frame:
  "cwd (snd (run_install E s)) = cwd s"
  "writable (log_file (snd (run_install E s))) = writable (log_file s)"
  "cwd (snd (run_build E s)) = cwd s"
  "writable (log_file (snd (run_build E s))) = writable (log_file s)"
  "cwd (snd (run_npm_audit E s)) = cwd s"
  "writable (log_file (snd (run_npm_audit E s))) = writable (log_file s)"
  "cwd (snd (check_build_output_ok E s)) = cwd s"
  "writable (log_file (snd (check_build_output_ok E s))) = writable (log_file s)"
  by (simp_all add: run_install_def run_build_def run_npm_audit_def check_build_output_ok_def
        proj2 split: sum.splits)

lemma run_steps_effect:
  assumes "writable (log_file s)"
  shows "fst (run_install E s) = subprocess_run E (install_cmd E)"
    and "calls (snd (run_install E s)) = calls s @ [install_cmd E]"
    and "fst (run_build E s) = subprocess_run E (build_cmd E)"
    and "calls (snd (run_build E s)) = calls s @ [build_cmd E]"
    and "fst (run_npm_audit E s) = subprocess_run E (audit_cmd E)"
    and "calls (snd (run_npm_audit E s)) = calls s @ [audit_cmd E]"
    and "fst (check_build_output_ok E s) =
           (if is_dir E (length (calls s)) (build_dir E) then Inr ()
            else Inl (BuildErrorException (ustr ''Failed to create output directory'')))"
    and "calls (snd (check_build_output_ok E s)) = calls s"
  using assms
  by (simp_all add: run_install_def run_build_def run_npm_audit_def check_build_output_ok_def
        proj2 split: sum.splits)

lemmas steps = check_package_json_frame simple_steps_frame check_node_installed_frame
  check_node_installed_effect check_pkgmgr_installed_frame check_pkgmgr_installed_effect
  run_steps_frame run_steps_effect

lemma run_cwd: "cwd (snd (run E s)) = cwd s"
  by (simp add: run_def fst_andthen snd_andthen proj_return steps split: sum.splits)

lemma run_writable: "writable (log_file (snd (run E s))) = writable (log_file s)"
  by (simp add: run_def fst_andthen snd_andthen proj_return steps split: sum.splits)

lemma run_closed_form:
  assumes "writable (log_file s)"
  shows "(fst (run E s), calls (snd (run E s))) =
    (case fst (check_package_json E s) of
       Inl e \<Rightarrow> (Inl e, calls s)
     | Inr u \<Rightarrow>
      (case subprocess_run E (node_version_cmd E) of
         Inl e \<Rightarrow> (Inl e, calls s @ [node_version_cmd E])
       | Inr node \<Rightarrow>
        if returncode node \<noteq> 0 then
          (Inl (BuildErrorException
                 (ustr ''Could not find node - it is required for React components'')),
           calls s @ [node_version_cmd E])
        else
         (case subprocess_run E (pkgmgr_version_cmd E) of
            Inl e \<Rightarrow> (Inl e, calls s @ [node_version_cmd E, pkgmgr_version_cmd E])
          | Inr pkgmgr \<Rightarrow>
           if returncode pkgmgr \<noteq> 0 then
             (Inl (BuildErrorException
                    (ustr ''Could not find '' @ PACKAGE_MGR
                      @ ustr '' - it is required to install node packages'')),
              calls s @ [node_version_cmd E, pkgmgr_version_cmd E])
           else
            (case subprocess_run E (install_cmd E) of
               Inl e \<Rightarrow>
                 (Inl e, calls s @ [node_version_cmd E, pkgmgr_version_cmd E, install_cmd E])
             | Inr result \<Rightarrow>
              if str_contains (stdout result) (ustr ''npm audit fix'') then
               (case subprocess_run E (audit_cmd E) of
                  Inl e \<Rightarrow>
                    (Inl e, calls s @ [node_version_cmd E, pkgmgr_version_cmd E,
                                       install_cmd E, audit_cmd E])
                | Inr audit \<Rightarrow>
                 (case subprocess_run E (build_cmd E) of
                    Inl e \<Rightarrow>
                      (Inl e, calls s @ [node_version_cmd E, pkgmgr_version_cmd E,
                                         install_cmd E, audit_cmd E, build_cmd E])
                  | Inr built \<Rightarrow>
                      (if is_dir E (length (calls s) + 5) (build_dir E) then Inr ()
                       else Inl (BuildErrorException (ustr ''Failed to create output directory'')),
                       calls s @ [node_version_cmd E, pkgmgr_version_cmd E,
                                  install_cmd E, audit_cmd E, build_cmd E])))
              else
               (case subprocess_run E (build_cmd E) of
                  Inl e \<Rightarrow>
                    (Inl e, calls s @ [node_version_cmd E, pkgmgr_version_cmd E,
                                       install_cmd E, build_cmd E])
                | Inr built \<Rightarrow>
                    (if is_dir E (length (calls s) + 4) (build_dir E) then Inr ()
                     else Inl (BuildErrorException (ustr ''Failed to create output directory'')),
                     calls s @ [node_version_cmd E, pkgmgr_version_cmd E,
                                install_cmd E, build_cmd E]))))))"
  using assms
  by (simp add: run_def fst_andthen snd_andthen proj_return steps eval_nat_numeral
        split: sum.splits)

lemma initialize_calls:
  "calls (snd (initialize E version build_data s)) =
     (case chdir_error E (length (calls s)) (PACKAGE_DIR E) of
        Some e \<Rightarrow> calls s
      | None \<Rightarrow>
          (case py_open E [ustr ''setup.log''] of
             Some e \<Rightarrow> calls s
           | None \<Rightarrow> calls (snd (run E (s\<lparr>cwd := PACKAGE_DIR E, log_file := fresh_log\<rparr>)))))"
  by (simp add: initialize_def os_getcwd_def set_log_file_def fst_andthen snd_andthen
        fst_try_finally snd_try_finally fst_with_open snd_with_open proj_os_chdir
        split: option.splits sum.splits)

lemma initialize_result:
  "fst (initialize E version build_data s) =
     (case chdir_error E (length (calls (snd (initialize E version build_data s)))) (cwd s) of
        Some e \<Rightarrow> Inl e
      | None \<Rightarrow>
          (case chdir_error E (length (calls s)) (PACKAGE_DIR E) of
             Some e \<Rightarrow> Inl e
           | None \<Rightarrow>
               (case py_open E [ustr ''setup.log''] of
                  Some e \<Rightarrow> Inl e
                | None \<Rightarrow> fst (run E (s\<lparr>cwd := PACKAGE_DIR E, log_file := fresh_log\<rparr>)))))"
  by (simp add: initialize_def os_getcwd_def set_log_file_def fst_andthen snd_andthen
        fst_try_finally snd_try_finally fst_with_open snd_with_open proj_os_chdir run_cwd
        split: option.splits sum.splits)

lemma initialize_cwd:
  "cwd (snd (initialize E version build_data s)) =
     (case chdir_error E (length (calls (snd (initialize E version build_data s)))) (cwd s) of
        None \<Rightarrow> cwd s
      | Some e \<Rightarrow>
          (case chdir_error E (length (calls s)) (PACKAGE_DIR E) of
             Some e' \<Rightarrow> cwd s
           | None \<Rightarrow> PACKAGE_DIR E))"
  by (simp add: initialize_def os_getcwd_def set_log_file_def fst_andthen snd_andthen
        fst_try_finally snd_try_finally fst_with_open snd_with_open proj_os_chdir run_cwd
        split: option.splits sum.splits)

lemma initialize_run:
  assumes "chdir_error E (length (calls s)) (PACKAGE_DIR E) = None"
    and "py_open E [ustr ''setup.log''] = None"
  shows "calls (snd (initialize E version build_data s)) =
           calls (snd (run E (s\<lparr>cwd := PACKAGE_DIR E, log_file := fresh_log\<rparr>)))"
    and "fst (initialize E version build_data s) =
           (case chdir_error E
                   (length (calls (snd (run E (s\<lparr>cwd := PACKAGE_DIR E, log_file := fresh_log\<rparr>)))))
                   (cwd s) of
              Some e \<Rightarrow> Inl e
            | None \<Rightarrow> fst (run E (s\<lparr>cwd := PACKAGE_DIR E, log_file := fresh_log\<rparr>)))"
  using assms by (simp_all add: initialize_result initialize_calls split: option.splits)

subsection \<open>Lines and logging\<close>

text \<open>
  Claim C8, as stated, fails: the message made of the surrogate U+D800 and the letter x
  is one non-blank line, but writing it to the UTF-8 log raises
  \<^verbatim>\<open>UnicodeEncodeError\<close>; nothing is written and the log is not flushed.
\<close>

theorem msg_log_surrogate_raises:
  "msg_log example_env ([55296] @ ustr ''x'') 0 example_state =
     (Inl (UnicodeEncodeError ([55296] @ ustr ''x'' @ [10])), example_state)"
proof -
  have "writable (log_file example_state)"
    by (simp add: example_state_def fresh_log_def)
  then show ?thesis
    by (simp add: msg_log_eq log_outcome_def nonblank_lines_def splitlines_def ustr_def
          is_linebreak_def is_space_def encodable_def is_surrogate_def linesep_def
          example_env_def)
qed

text \<open>
  Claim C8, amended. On a writable log, for every message and every indent: when each
  non-blank line of the message can be encoded in UTF-8, \<^verbatim>\<open>_msg_log\<close> returns normally,
  appends to the log exactly the lines of the message that hold a character other than
  whitespace, in their order, each after \<open>indent\<close> spaces (none when \<open>indent\<close> is
  negative) and followed by \<^verbatim>\<open>os.linesep\<close>, and flushes once. When one cannot,
  \<^verbatim>\<open>write\<close> raises \<^verbatim>\<open>UnicodeEncodeError\<close> at the first such line: the lines before it
  have been written, and the log is not flushed. The lines are those of
  \<^verbatim>\<open>splitlines\<close>: none holds a line boundary, and together they are the message without
  its boundaries.
\<close>

theorem msg_log_writes_nonblank_lines:
  assumes "writable (log_file s)"
  shows "(list_all encodable (nonblank_lines msg) \<longrightarrow>
            msg_log E msg indent s =
              (Inr (),
               s\<lparr>log_file := (log_file s)
                    \<lparr>written := written (log_file s) @
                        map (\<lambda>line. replicate (nat indent) 32 @ line @ linesep E)
                            (filter (\<lambda>line. \<exists>c\<in>set line. \<not> is_space c) (splitlines msg)),
                     flushes := Suc (flushes (log_file s))\<rparr>\<rparr>))
         \<and> (dropWhile encodable (nonblank_lines msg) = bad # rest \<longrightarrow>
              msg_log E msg indent s =
                (Inl (UnicodeEncodeError (replicate (nat indent) 32 @ bad @ linesep E)),
                 s\<lparr>log_file := (log_file s)
                      \<lparr>written := written (log_file s) @
                          map (\<lambda>line. replicate (nat indent) 32 @ line @ linesep E)
                              (takeWhile encodable (nonblank_lines msg))\<rparr>\<rparr>))
         \<and> list_all no_linebreak (splitlines msg)
         \<and> concat (splitlines msg) = filter (\<lambda>c. \<not> is_linebreak c) msg"
proof (intro conjI impI)
  assume ok: "list_all encodable (nonblank_lines msg)"
  then have tw: "takeWhile encodable (nonblank_lines msg) = nonblank_lines msg"
    and lo: "log_outcome E indent msg = Inr ()"
    by (simp_all add: log_outcome_def list_all_iff dropWhile_eq_Nil_conv [THEN iffD2])
  have "msg_log E msg indent s =
      (Inr (),
       s\<lparr>log_file := (log_file s)
            \<lparr>written := written (log_file s) @
                map (\<lambda>line. replicate (nat indent) 32 @ line @ linesep E) (nonblank_lines msg),
             flushes := Suc (flushes (log_file s))\<rparr>\<rparr>)"
    unfolding msg_log_eq [OF assms] tw lo by simp
  then show "msg_log E msg indent s =
      (Inr (),
       s\<lparr>log_file := (log_file s)
            \<lparr>written := written (log_file s) @
                map (\<lambda>line. replicate (nat indent) 32 @ line @ linesep E)
                    (filter (\<lambda>line. \<exists>c\<in>set line. \<not> is_space c) (splitlines msg)),
             flushes := Suc (flushes (log_file s))\<rparr>\<rparr>)"
    by (simp only: nonblank_lines_def)
next
  assume "dropWhile encodable (nonblank_lines msg) = bad # rest"
  then have "log_outcome E indent msg =
      Inl (UnicodeEncodeError (replicate (nat indent) 32 @ bad @ linesep E))"
    by (simp add: log_outcome_def)
  then show "msg_log E msg indent s =
      (Inl (UnicodeEncodeError (replicate (nat indent) 32 @ bad @ linesep E)),
       s\<lparr>log_file := (log_file s)
            \<lparr>written := written (log_file s) @
                map (\<lambda>line. replicate (nat indent) 32 @ line @ linesep E)
                    (takeWhile encodable (nonblank_lines msg))\<rparr>\<rparr>)"
    by (simp add: msg_log_eq [OF assms])
next
  show "list_all no_linebreak (splitlines msg)" by (rule splitlines_no_linebreak)
next
  show "concat (splitlines msg) = filter (\<lambda>c. \<not> is_linebreak c) msg"
    by (simp add: splitlines_def splitlines_from_concat)
qed

theorem msg_log_writes_nonblank_lines_witness:
  "writable (log_file example_state)
   \<and> msg_log example_env (ustr ''one'' @ [13, 10, 32, 9, 10] @ ustr ''two'') 2 example_state =
       (Inr (), example_state\<lparr>log_file := fresh_log
           \<lparr>written := [ustr ''  one'' @ [10], ustr ''  two'' @ [10]], flushes := 1\<rparr>\<rparr>)
   \<and> msg_log example_env (ustr ''one'' @ [10, 55296]) 2 example_state =
       (Inl (UnicodeEncodeError (ustr ''  '' @ [55296, 10])),
        example_state\<lparr>log_file := fresh_log\<lparr>written := [ustr ''  one'' @ [10]]\<rparr>\<rparr>)"
  using msg_log_writes_nonblank_lines [where s = example_state and E = example_env
          and msg = "ustr ''one'' @ [13, 10, 32, 9, 10] @ ustr ''two''" and indent = 2]
        msg_log_writes_nonblank_lines [where s = example_state and E = example_env
          and msg = "ustr ''one'' @ [10, 55296]" and indent = 2 and bad = "[55296]"
          and rest = "[]"]
  by (simp add: example_state_def example_env_def fresh_log_def nonblank_lines_def splitlines_def
        ustr_def is_linebreak_def is_space_def encodable_def is_surrogate_def linesep_def
        replicate_two)

subsection \<open>The manifest check and the whole run in closed form\<close>

lemma manifest_ops_no_JSONDecodeError:
  "py_contains d key \<noteq> Inl (JSONDecodeError m x p)"
  "py_getitem d key \<noteq> Inl (JSONDecodeError m x p)"
  by (cases d; simp add: py_contains_def py_getitem_def split: option.splits)+

lemma check_package_json_closed_form:
  assumes "writable (log_file s)"
  shows "fst (check_package_json E s) =
    (case py_open E (package_json_path E) of
       Some e \<Rightarrow> Inl e
     | None \<Rightarrow>
       (case json_load E of
          Inl e \<Rightarrow>
            (case e of
               JSONDecodeError m d p \<Rightarrow>
                 Inl (JSONDecodeError (ustr ''package.json: '' @ m)
                        (fspath E (package_json_path E)) p)
             | _ \<Rightarrow> Inl e)
        | Inr pkg_desc \<Rightarrow>
            (case py_contains pkg_desc (ustr ''version'') of
               Inl e \<Rightarrow> Inl e
             | Inr present \<Rightarrow>
                 if present then
                   (case py_getitem pkg_desc (ustr ''version'') of
                      Inl e \<Rightarrow> Inl e
                    | Inr v \<Rightarrow>
                        if v = JStr STREAMLIT_VERSION then Inr ()
                        else log_outcome E 0
                               (ustr ''WARNING: package.json:version should be ''
                                  @ STREAMLIT_VERSION @ ustr '' not '' @ py_format E v))
                 else Inr ())))"
proof -
  have no_json: "log_outcome E 0 msg \<noteq> Inl (JSONDecodeError m x p)" for msg m x p
    by (simp add: log_outcome_def split: list.splits)
  show ?thesis
    using assms
    by (simp add: check_package_json_def proj2 manifest_ops_no_JSONDecodeError no_json
          split: sum.splits exn.splits option.splits)
qed

lemma cmd_distinct:
  "node_version_cmd E \<noteq> pkgmgr_version_cmd E"
  "node_version_cmd E \<noteq> install_cmd E"
  "node_version_cmd E \<noteq> audit_cmd E"
  "node_version_cmd E \<noteq> build_cmd E"
  "pkgmgr_version_cmd E \<noteq> install_cmd E"
  "pkgmgr_version_cmd E \<noteq> audit_cmd E"
  "pkgmgr_version_cmd E \<noteq> build_cmd E"
  "install_cmd E \<noteq> audit_cmd E"
  "install_cmd E \<noteq> build_cmd E"
  "audit_cmd E \<noteq> build_cmd E"
  by (simp_all add: node_version_cmd_def pkgmgr_version_cmd_def install_cmd_def audit_cmd_def
        build_cmd_def PACKAGE_MGR_def ustr_def)

lemmas cmd_distinct' = cmd_distinct cmd_distinct [symmetric]

lemma fresh_log_writable: "writable fresh_log"
  by (simp add: fresh_log_def)

lemma completed_fields:
  "returncode (completed rc out err) = rc"
  "stdout (completed rc out err) = ustr out"
  "stderr (completed rc out err) = ustr err"
  by (simp_all add: completed_def stdout_def stderr_def text_of_utf8)

lemma example_env_fields:
  "py_open example_env = (\<lambda>p. None)"
  "json_load example_env = Inr (JObj [(ustr ''version'', JStr (ustr ''1.42.0''))])"
  "subprocess_run example_env = (\<lambda>cmd. Inr (completed 0 ''ok'' []))"
  "is_dir example_env = (\<lambda>k p. True)"
  "chdir_error example_env = (\<lambda>k p. None)"
  "linesep example_env = [10]"
  by (simp_all add: example_env_def linesep_def)

lemma manifest_passes:
  assumes "writable (log_file s)" "py_open E (package_json_path E) = None"
    "json_load E = Inr (JObj kvs)"
    "\<And>v. map_of kvs (ustr ''version'') = Some v \<Longrightarrow>
       v = JStr STREAMLIT_VERSION \<or> encodable (py_format E v)"
  shows "fst (check_package_json E s) = Inr ()"
proof (cases "map_of kvs (ustr ''version'')")
  case None
  then have "ustr ''version'' \<notin> fst ` set kvs" by (simp add: map_of_eq_None_iff)
  with assms(2,3) None show ?thesis
    by (simp add: check_package_json_closed_form [OF assms(1)] py_contains_def)
next
  case (Some v)
  then have "ustr ''version'' \<in> fst ` set kvs" by (metis map_of_eq_None_iff option.distinct(1))
  with assms(2,3) Some assms(4) [OF Some] show ?thesis
    by (auto simp: check_package_json_closed_form [OF assms(1)] py_contains_def py_getitem_def
          log_outcome_encodable encodable_simps)
qed

lemma manifest_passes_expected:
  assumes "writable (log_file s)" "py_open E (package_json_path E) = None"
    "json_load E = Inr (JObj [(ustr ''version'', JStr (ustr ''1.42.0''))])"
  shows "fst (check_package_json E s) = Inr ()"
  using assms by (rule manifest_passes) (simp add: STREAMLIT_VERSION_def)

subsection \<open>The manifest cannot be read\<close>

lemma run_stops_at_manifest:
  assumes "writable (log_file s)" "fst (check_package_json E s) = Inl e"
  shows "fst (run E s) = Inl e" "calls (snd (run E s)) = calls s"
  using run_closed_form [OF assms(1), of E] assms(2) by simp_all

lemma initialize_plain:
  assumes "chdir_error E = (\<lambda>k p. None)"
    and "py_open E [ustr ''setup.log''] = None"
  shows "fst (initialize E version build_data s) =
           fst (run E (s\<lparr>cwd := PACKAGE_DIR E, log_file := fresh_log\<rparr>))"
    and "calls (snd (initialize E version build_data s)) =
           calls (snd (run E (s\<lparr>cwd := PACKAGE_DIR E, log_file := fresh_log\<rparr>)))"
    and "cwd (snd (initialize E version build_data s)) = cwd s"
  using assms by (simp_all add: initialize_result initialize_calls initialize_cwd)

lemma initialize_invokes_nothing:
  assumes "fst (check_package_json E (s\<lparr>cwd := PACKAGE_DIR E, log_file := fresh_log\<rparr>)) = Inl e"
  shows "invoked s (snd (initialize E version build_data s)) = []"
proof -
  let ?s = "s\<lparr>cwd := PACKAGE_DIR E, log_file := fresh_log\<rparr>"
  have w: "writable (log_file ?s)" by (simp add: fresh_log_writable)
  from run_stops_at_manifest(2) [OF w assms] show ?thesis
    by (simp add: initialize_calls invoked_def split: option.splits)
qed

lemma initialize_stops_at_manifest:
  assumes "py_open E [ustr ''setup.log''] = None"
    and "chdir_error E (length (calls s)) (PACKAGE_DIR E) = None"
    and "chdir_error E (length (calls s)) (cwd s) = None"
    and "fst (check_package_json E (s\<lparr>cwd := PACKAGE_DIR E, log_file := fresh_log\<rparr>)) = Inl e"
  shows "fst (initialize E version build_data s) = Inl e"
proof -
  let ?s = "s\<lparr>cwd := PACKAGE_DIR E, log_file := fresh_log\<rparr>"
  have w: "writable (log_file ?s)" by (simp add: fresh_log_writable)
  from run_stops_at_manifest [OF w assms(4)] assms(1,2,3) show ?thesis
    by (simp add: initialize_run)
qed

lemma initialize_passes_manifest:
  assumes "py_open E [ustr ''setup.log''] = None"
    and "chdir_error E (length (calls s)) (PACKAGE_DIR E) = None"
    and "fst (check_package_json E (s\<lparr>cwd := PACKAGE_DIR E, log_file := fresh_log\<rparr>)) = Inr ()"
  shows "node_version_cmd E \<in> set (invoked s (snd (initialize E version build_data s)))"
proof -
  let ?s = "s\<lparr>cwd := PACKAGE_DIR E, log_file := fresh_log\<rparr>"
  have w: "writable (log_file ?s)" by (simp add: fresh_log_writable)
  show ?thesis
    using run_closed_form [OF w, of E] assms(3)
    by (simp add: initialize_run(1) [OF assms(2,1)] invoked_def split: sum.splits if_splits)
qed

lemma bad_manifest_outcome:
  "fst (initialize bad_manifest_env (ustr ''0.1.0'') () example_state) =
     Inl (JSONDecodeError
            (ustr ''package.json: Expecting property name enclosed in double quotes'')
            (ustr ''/pkg/streamlit_javascript/frontend/package.json'') 1)"
proof -
  let ?s = "example_state\<lparr>cwd := PACKAGE_DIR bad_manifest_env, log_file := fresh_log\<rparr>"
  have w: "writable (log_file ?s)" by (simp add: fresh_log_writable)
  have o: "py_open bad_manifest_env [ustr ''setup.log''] = None"
    and c: "chdir_error bad_manifest_env = (\<lambda>k p. None)"
    by (simp_all add: bad_manifest_env_def example_env_fields)
  have "fst (check_package_json bad_manifest_env ?s) =
     Inl (JSONDecodeError
            (ustr ''package.json: Expecting property name enclosed in double quotes'')
            (ustr ''/pkg/streamlit_javascript/frontend/package.json'') 1)"
    unfolding check_package_json_closed_form [OF w]
    by (simp add: bad_manifest_env_def example_env_def package_json_path_def frontend_dir_def
          joinpath_def ustr_def)
  with run_stops_at_manifest(1) [OF w] show ?thesis by (simp add: initialize_plain(1) [OF c o])
qed

text \<open>
  Claim C1, as stated, fails: a manifest whose bytes are not UTF-8 is not valid
  structured data, but \<^verbatim>\<open>json.load\<close> raises \<^verbatim>\<open>UnicodeDecodeError\<close> on it, which the
  handler does not catch, so that exception and not the parse error leaves the entry
  point.
\<close>

theorem undecodable_manifest_raises_no_parse_error:
  "fst (initialize undecodable_manifest_env (ustr ''0.1.0'') () example_state) =
     Inl (UnicodeDecodeError (ustr ''utf-8 codec cannot decode byte 0xff in position 0''))"
proof -
  let ?s = "example_state\<lparr>cwd := PACKAGE_DIR undecodable_manifest_env, log_file := fresh_log\<rparr>"
  have w: "writable (log_file ?s)" by (simp add: fresh_log_writable)
  have o: "py_open undecodable_manifest_env [ustr ''setup.log''] = None"
    and c: "chdir_error undecodable_manifest_env = (\<lambda>k p. None)"
    by (simp_all add: undecodable_manifest_env_def example_env_fields)
  have "fst (check_package_json undecodable_manifest_env ?s) =
     Inl (UnicodeDecodeError (ustr ''utf-8 codec cannot decode byte 0xff in position 0''))"
    unfolding check_package_json_closed_form [OF w]
    by (simp add: undecodable_manifest_env_def example_env_fields)
  with run_stops_at_manifest(1) [OF w] show ?thesis by (simp add: initialize_plain(1) [OF c o])
qed

text \<open>
  Claim C1, amended. Let the manifest open and \<^verbatim>\<open>json.load\<close> raise \<open>e\<close>. When \<open>e\<close>
  is \<^verbatim>\<open>JSONDecodeError(m, d, p)\<close>, the error raised is a \<^verbatim>\<open>JSONDecodeError\<close> whose
  message is \<open>m\<close> after \<^verbatim>\<open>"package.json: "\<close>, which carries the manifest path and
  the position \<open>p\<close>; any other \<open>e\<close> is raised as it is. This is the outcome of
  \<^verbatim>\<open>_run\<close> on a writable log, and of the entry point when the log can be opened and
  both directory changes succeed. In every case the run has started no subprocess, so
  neither the node nor the package manager version check.
\<close>

theorem invalid_manifest_raises_parse_error:
  assumes "py_open E (package_json_path E) = None"
    and "json_load E = Inl e"
  shows "(writable (log_file t) \<longrightarrow>
            fst (run E t) =
              Inl (case e of
                     JSONDecodeError m d p \<Rightarrow>
                       JSONDecodeError (ustr ''package.json: '' @ m)
                         (fspath E (package_json_path E)) p
                   | _ \<Rightarrow> e)
            \<and> invoked t (snd (run E t)) = [])
         \<and> invoked s (snd (initialize E version build_data s)) = []
         \<and> (py_open E [ustr ''setup.log''] = None
              \<and> chdir_error E (length (calls s)) (PACKAGE_DIR E) = None
              \<and> chdir_error E (length (calls s)) (cwd s) = None \<longrightarrow>
            fst (initialize E version build_data s) =
              Inl (case e of
                     JSONDecodeError m d p \<Rightarrow>
                       JSONDecodeError (ustr ''package.json: '' @ m)
                         (fspath E (package_json_path E)) p
                   | _ \<Rightarrow> e))"
proof -
  let ?e = "case e of
              JSONDecodeError m d p \<Rightarrow>
                JSONDecodeError (ustr ''package.json: '' @ m) (fspath E (package_json_path E)) p
            | _ \<Rightarrow> e"
  have m: "fst (check_package_json E u) = Inl ?e" if "writable (log_file u)" for u
    using assms by (simp add: check_package_json_closed_form [OF that] split: exn.splits)
  have "fst (run E t) = Inl ?e \<and> invoked t (snd (run E t)) = []" if "writable (log_file t)"
    using run_stops_at_manifest [OF that m [OF that]] by (simp add: invoked_def)
  moreover have "invoked s (snd (initialize E version build_data s)) = []"
    by (rule initialize_invokes_nothing) (rule m, simp add: fresh_log_writable)
  moreover have "fst (initialize E version build_data s) = Inl ?e"
    if "py_open E [ustr ''setup.log''] = None"
      "chdir_error E (length (calls s)) (PACKAGE_DIR E) = None"
      "chdir_error E (length (calls s)) (cwd s) = None"
    using that by (rule initialize_stops_at_manifest) (rule m, simp add: fresh_log_writable)
  ultimately show ?thesis by blast
qed

theorem invalid_manifest_raises_parse_error_witness:
  "fst (initialize bad_manifest_env (ustr ''0.1.0'') () example_state) =
     Inl (JSONDecodeError
            (ustr ''package.json: Expecting property name enclosed in double quotes'')
            (ustr ''/pkg/streamlit_javascript/frontend/package.json'') 1)
   \<and> invoked example_state (snd (initialize bad_manifest_env (ustr ''0.1.0'') () example_state)) = []
   \<and> fst (run bad_manifest_env example_state) =
       Inl (JSONDecodeError
              (ustr ''package.json: Expecting property name enclosed in double quotes'')
              (ustr ''/pkg/streamlit_javascript/frontend/package.json'') 1)"
  using invalid_manifest_raises_parse_error [where E = bad_manifest_env
          and e = "JSONDecodeError (ustr ''Expecting property name enclosed in double quotes'')
                     (ustr ''{'') 1"
          and version = "ustr ''0.1.0''" and build_data = "()" and s = example_state
          and t = example_state]
  by (simp add: bad_manifest_env_def example_env_def example_state_def fresh_log_def
        package_json_path_def frontend_dir_def joinpath_def ustr_def)

text \<open>
  Claim C10. When opening the manifest raises \<open>e\<close>, that same \<open>e\<close> is raised, whatever
  \<^verbatim>\<open>json.load\<close> would have answered, and no subprocess is started: the file is opened
  before the \<^verbatim>\<open>try\<close> block, and the handler catches \<^verbatim>\<open>JSONDecodeError\<close> only. This is
  the outcome of \<^verbatim>\<open>_run\<close> on a writable log, and of the entry point when the log can be
  opened and both directory changes succeed.
\<close>

theorem missing_manifest_raises_os_error:
  assumes "py_open E (package_json_path E) = Some e"
  shows "(writable (log_file t) \<longrightarrow>
            fst (run E t) = Inl e \<and> invoked t (snd (run E t)) = [])
         \<and> invoked s (snd (initialize E version build_data s)) = []
         \<and> (py_open E [ustr ''setup.log''] = None
              \<and> chdir_error E (length (calls s)) (PACKAGE_DIR E) = None
              \<and> chdir_error E (length (calls s)) (cwd s) = None \<longrightarrow>
            fst (initialize E version build_data s) = Inl e)"
proof -
  have m: "fst (check_package_json E u) = Inl e" if "writable (log_file u)" for u
    using assms by (simp add: check_package_json_closed_form [OF that])
  have "fst (run E t) = Inl e \<and> invoked t (snd (run E t)) = []" if "writable (log_file t)"
    using run_stops_at_manifest [OF that m [OF that]] by (simp add: invoked_def)
  moreover have "invoked s (snd (initialize E version build_data s)) = []"
    by (rule initialize_invokes_nothing) (rule m, simp add: fresh_log_writable)
  moreover have "fst (initialize E version build_data s) = Inl e"
    if "py_open E [ustr ''setup.log''] = None"
      "chdir_error E (length (calls s)) (PACKAGE_DIR E) = None"
      "chdir_error E (length (calls s)) (cwd s) = None"
    using that by (rule initialize_stops_at_manifest) (rule m, simp add: fresh_log_writable)
  ultimately show ?thesis by blast
qed

theorem missing_manifest_raises_os_error_witness:
  "fst (initialize no_manifest_env (ustr ''0.1.0'') () example_state) =
     Inl (OSError (ustr ''No such file or directory: package.json''))
   \<and> \<not> is_BuildErrorException (OSError (ustr ''No such file or directory: package.json''))
   \<and> invoked example_state (snd (initialize no_manifest_env (ustr ''0.1.0'') () example_state)) = []"
  using missing_manifest_raises_os_error [where E = no_manifest_env
          and e = "OSError (ustr ''No such file or directory: package.json'')"
          and version = "ustr ''0.1.0''" and build_data = "()" and s = example_state
          and t = example_state]
  by (simp add: no_manifest_env_def example_env_def package_json_path_def frontend_dir_def
        joinpath_def ustr_def)

subsection \<open>The working directory\<close>

lemma example_run_calls:
  assumes "py_open E = (\<lambda>p. None)"
    and "json_load E = Inr (JObj [(ustr ''version'', JStr (ustr ''1.42.0''))])"
    and "subprocess_run E = (\<lambda>cmd. Inr (completed 0 ''ok'' []))"
    and "writable (log_file s)"
  shows "calls (snd (run E s)) =
           calls s @ [node_version_cmd E, pkgmgr_version_cmd E, install_cmd E, build_cmd E]"
    and "fst (run E s) =
           (if is_dir E (length (calls s) + 4) (build_dir E) then Inr ()
            else Inl (BuildErrorException (ustr ''Failed to create output directory'')))"
proof -
  have m: "fst (check_package_json E s) = Inr ()"
    using assms(4) by (rule manifest_passes_expected) (simp_all add: assms)
  show "calls (snd (run E s)) =
           calls s @ [node_version_cmd E, pkgmgr_version_cmd E, install_cmd E, build_cmd E]"
    and "fst (run E s) =
           (if is_dir E (length (calls s) + 4) (build_dir E) then Inr ()
            else Inl (BuildErrorException (ustr ''Failed to create output directory'')))"
    using run_closed_form [OF assms(4), of E] m
    by (simp_all add: assms(3) completed_fields ustr_def)
qed

lemma removed_directory_calls:
  "length (calls (snd (initialize removed_directory_env (ustr ''0.1.0'') () example_state))) = 4"
proof -
  let ?E = removed_directory_env
  let ?s = "example_state\<lparr>cwd := PACKAGE_DIR ?E, log_file := fresh_log\<rparr>"
  have w: "writable (log_file ?s)" by (simp add: fresh_log_writable)
  have "calls (snd (run ?E ?s)) =
          calls ?s @ [node_version_cmd ?E, pkgmgr_version_cmd ?E, install_cmd ?E, build_cmd ?E]"
    by (rule example_run_calls(1) [OF _ _ _ w])
       (simp_all add: removed_directory_env_def example_env_fields)
  then show ?thesis
    by (simp add: initialize_calls removed_directory_env_def example_env_fields example_state_def
          example_env_def)
qed

text \<open>
  Claim C4, as stated, fails: when a subprocess of the run has removed the directory
  the process was started in, \<^verbatim>\<open>os.chdir(original_directory)\<close> in the \<^verbatim>\<open>finally\<close> clause
  raises, and the process stays in the package directory.
\<close>

theorem removed_directory_is_not_restored:
  "cwd example_state = [ustr ''home'']
   \<and> cwd (snd (initialize removed_directory_env (ustr ''0.1.0'') () example_state)) = [ustr ''pkg'']
   \<and> fst (initialize removed_directory_env (ustr ''0.1.0'') () example_state) =
       Inl (OSError (ustr ''No such file or directory: home''))"
  by (simp add: initialize_cwd initialize_result removed_directory_calls)
     (simp add: removed_directory_env_def example_env_def example_state_def ustr_def)

text \<open>
  Claim C4, amended. The \<^verbatim>\<open>finally\<close> clause attempts the change back into the directory
  that \<^verbatim>\<open>os.getcwd()\<close> returned on every way out of the body, whether the body returned
  or raised. When that \<^verbatim>\<open>os.chdir\<close> succeeds, the working directory after the run is
  the one before it. When it raises \<open>e\<close>, that \<open>e\<close> leaves the entry point, and the
  process stays where the body left it: in the package directory, or in the original
  one when the first \<^verbatim>\<open>os.chdir\<close> had failed.
\<close>

theorem initialize_restores_cwd:
  "(chdir_error E (length (calls (snd (initialize E version build_data s)))) (cwd s) = None \<longrightarrow>
      cwd (snd (initialize E version build_data s)) = cwd s)
   \<and> (chdir_error E (length (calls (snd (initialize E version build_data s)))) (cwd s) = Some e \<longrightarrow>
        fst (initialize E version build_data s) = Inl e
        \<and> cwd (snd (initialize E version build_data s)) =
            (if chdir_error E (length (calls s)) (PACKAGE_DIR E) = None then PACKAGE_DIR E
             else cwd s))"
  by (simp add: initialize_cwd initialize_result split: option.splits)

theorem initialize_restores_cwd_witness:
  "fst (initialize bad_manifest_env (ustr ''0.1.0'') () example_state) =
     Inl (JSONDecodeError
            (ustr ''package.json: Expecting property name enclosed in double quotes'')
            (ustr ''/pkg/streamlit_javascript/frontend/package.json'') 1)
   \<and> cwd (snd (initialize bad_manifest_env (ustr ''0.1.0'') () example_state)) = [ustr ''home'']
   \<and> cwd (snd (initialize example_env (ustr ''0.1.0'') () example_state)) = [ustr ''home'']
   \<and> fst (initialize removed_directory_env (ustr ''0.1.0'') () example_state) =
       Inl (OSError (ustr ''No such file or directory: home''))"
proof -
  have "chdir_error removed_directory_env 4 (cwd example_state) =
          Some (OSError (ustr ''No such file or directory: home''))"
    by (simp add: removed_directory_env_def example_state_def)
  then show ?thesis
    using bad_manifest_outcome
        initialize_restores_cwd [of bad_manifest_env "ustr ''0.1.0''" "()" example_state]
        initialize_restores_cwd [of example_env "ustr ''0.1.0''" "()" example_state]
        initialize_restores_cwd [of removed_directory_env "ustr ''0.1.0''" "()" example_state
          "OSError (ustr ''No such file or directory: home'')"]
    by (simp add: removed_directory_calls)
       (simp add: example_state_def bad_manifest_env_def example_env_fields)
qed

subsection \<open>The audit step\<close>

lemma startswith_iff: "startswith hay needle \<longleftrightarrow> (\<exists>post. hay = needle @ post)"
  by (induction hay needle rule: startswith.induct) auto

lemma str_contains_iff:
  "str_contains hay needle \<longleftrightarrow> (\<exists>pre post. hay = pre @ needle @ post)"
proof (induction hay)
  case Nil
  then show ?case by simp
next
  case (Cons c cs)
  show ?case
  proof
    assume "str_contains (c # cs) needle"
    then consider "startswith (c # cs) needle" | "str_contains cs needle" by auto
    then show "\<exists>pre post. c # cs = pre @ needle @ post"
    proof cases
      case 1
      then obtain post where "c # cs = needle @ post" by (auto simp: startswith_iff)
      then have "c # cs = [] @ needle @ post" by simp
      then show ?thesis by blast
    next
      case 2
      then obtain pre post where "cs = pre @ needle @ post" using Cons.IH by blast
      then have "c # cs = (c # pre) @ needle @ post" by simp
      then show ?thesis by blast
    qed
  next
    assume "\<exists>pre post. c # cs = pre @ needle @ post"
    then obtain pre post where eq: "c # cs = pre @ needle @ post" by blast
    show "str_contains (c # cs) needle"
    proof (cases pre)
      case Nil
      with eq have "startswith (c # cs) needle" by (auto simp: startswith_iff)
      then show ?thesis by simp
    next
      case (Cons p ps)
      with eq have "cs = ps @ needle @ post" by simp
      then have "str_contains cs needle" using Cons.IH by blast
      then show ?thesis by simp
    qed
  qed
qed

text \<open>
  Claim C3. Among the subprocesses that a run of the entry point starts, the audit
  command occurs once when the install command was started, returned, and its captured
  standard output holds the text \<^verbatim>\<open>npm audit fix\<close>; it does not occur otherwise. By
  \<open>str_contains_iff\<close> the test is exactly that of a contiguous occurrence.
\<close>

theorem audit_runs_iff_install_suggests_it:
  "count_list (invoked s (snd (initialize E version build_data s))) (audit_cmd E) =
     (if install_cmd E \<in> set (invoked s (snd (initialize E version build_data s)))
         \<and> (case subprocess_run E (install_cmd E) of
               Inl e \<Rightarrow> False
             | Inr result \<Rightarrow> str_contains (stdout result) (ustr ''npm audit fix''))
      then 1 else 0)"
proof -
  let ?s = "s\<lparr>cwd := PACKAGE_DIR E, log_file := fresh_log\<rparr>"
  have w: "writable (log_file ?s)" by (simp add: fresh_log_writable)
  show ?thesis
    using run_closed_form [OF w, of E]
    by (simp add: initialize_calls invoked_def cmd_distinct'
          split: option.splits sum.splits if_splits)
qed

theorem audit_runs_iff_install_suggests_it_witness:
  "count_list
     (invoked example_state (snd (initialize audit_hint_env (ustr ''0.1.0'') () example_state)))
     (audit_cmd audit_hint_env) = 1"
proof -
  let ?s = "example_state\<lparr>cwd := PACKAGE_DIR audit_hint_env, log_file := fresh_log\<rparr>"
  have w: "writable (log_file ?s)" by (simp add: fresh_log_writable)
  have m: "fst (check_package_json audit_hint_env ?s) = Inr ()"
    by (rule manifest_passes_expected [OF w])
       (simp_all add: audit_hint_env_def example_env_fields)
  have "calls (snd (run audit_hint_env ?s)) =
          [node_version_cmd audit_hint_env, pkgmgr_version_cmd audit_hint_env,
           install_cmd audit_hint_env, audit_cmd audit_hint_env, build_cmd audit_hint_env]"
    using run_closed_form [OF w, of audit_hint_env] m
    by (simp add: audit_hint_env_def example_env_fields example_state_def completed_fields
          ustr_def)
  then have "install_cmd audit_hint_env
               \<in> set (invoked example_state
                        (snd (initialize audit_hint_env (ustr ''0.1.0'') () example_state)))"
    by (simp add: initialize_calls invoked_def audit_hint_env_def example_env_fields
          example_state_def)
  moreover have "subprocess_run audit_hint_env (install_cmd audit_hint_env) =
      Inr (completed 0 ''run `npm audit fix` to fix them'' [])"
    by (simp add: audit_hint_env_def)
  moreover have "str_contains (ustr ''run `npm audit fix` to fix them'') (ustr ''npm audit fix'')"
    by (simp add: ustr_def)
  ultimately show ?thesis
    using audit_runs_iff_install_suggests_it
            [of example_state audit_hint_env "ustr ''0.1.0''" "()"]
    by (simp add: completed_fields)
qed

subsection \<open>Exit codes of install and build\<close>

lemma with_exit_codes_fields:
  "PACKAGE_DIR (with_exit_codes E a b) = PACKAGE_DIR E"
  "fspath (with_exit_codes E a b) = fspath E"
  "str_json (with_exit_codes E a b) = str_json E"
  "py_open (with_exit_codes E a b) = py_open E"
  "json_load (with_exit_codes E a b) = json_load E"
  "is_dir (with_exit_codes E a b) = is_dir E"
  "chdir_error (with_exit_codes E a b) = chdir_error E"
  "linesep (with_exit_codes E a b) = linesep E"
  by (simp_all add: with_exit_codes_def linesep_def)

lemma log_outcome_with_exit_codes:
  "log_outcome (with_exit_codes E a b) indent msg = log_outcome E indent msg"
  "py_format (with_exit_codes E a b) v = py_format E v"
  by (simp_all add: log_outcome_def py_format_def with_exit_codes_fields
        cong: list.case_cong json.case_cong)

lemma with_exit_codes_paths:
  "package_json_path (with_exit_codes E a b) = package_json_path E"
  "build_dir (with_exit_codes E a b) = build_dir E"
  "node_version_cmd (with_exit_codes E a b) = node_version_cmd E"
  "pkgmgr_version_cmd (with_exit_codes E a b) = pkgmgr_version_cmd E"
  "install_cmd (with_exit_codes E a b) = install_cmd E"
  "audit_cmd (with_exit_codes E a b) = audit_cmd E"
  "build_cmd (with_exit_codes E a b) = build_cmd E"
  by (simp_all add: package_json_path_def build_dir_def frontend_dir_def node_version_cmd_def
        pkgmgr_version_cmd_def install_cmd_def audit_cmd_def build_cmd_def with_exit_codes_fields)

lemma with_exit_codes_run:
  "subprocess_run (with_exit_codes E a b) (node_version_cmd E) = subprocess_run E (node_version_cmd E)"
  "subprocess_run (with_exit_codes E a b) (pkgmgr_version_cmd E) = subprocess_run E (pkgmgr_version_cmd E)"
  "subprocess_run (with_exit_codes E a b) (audit_cmd E) = subprocess_run E (audit_cmd E)"
  "subprocess_run (with_exit_codes E a b) (install_cmd E) = exit_with a (subprocess_run E (install_cmd E))"
  "subprocess_run (with_exit_codes E a b) (build_cmd E) = exit_with b (subprocess_run E (build_cmd E))"
  by (simp_all add: with_exit_codes_def cmd_distinct')

lemma check_package_json_with_exit_codes:
  assumes "writable (log_file s)" "writable (log_file t)"
  shows "fst (check_package_json (with_exit_codes E a b) s) = fst (check_package_json E t)"
  by (simp add: check_package_json_closed_form [OF assms(1)]
        check_package_json_closed_form [OF assms(2)] with_exit_codes_fields with_exit_codes_paths
        log_outcome_with_exit_codes
        cong: option.case_cong sum.case_cong exn.case_cong if_cong)

lemma run_with_exit_codes:
  assumes "writable (log_file s)"
  shows "fst (run (with_exit_codes E a b) s) = fst (run E s)"
    and "calls (snd (run (with_exit_codes E a b) s)) = calls (snd (run E s))"
proof -
  have "(fst (run (with_exit_codes E a b) s), calls (snd (run (with_exit_codes E a b) s))) =
        (fst (run E s), calls (snd (run E s)))"
    unfolding run_closed_form [OF assms]
    by (simp add: check_package_json_with_exit_codes [OF assms assms] with_exit_codes_fields
          with_exit_codes_paths with_exit_codes_run exit_with_def stdout_def
          split: sum.splits)
  then show "fst (run (with_exit_codes E a b) s) = fst (run E s)"
    and "calls (snd (run (with_exit_codes E a b) s)) = calls (snd (run E s))"
    by simp_all
qed

text \<open>
  Claim C9. Replacing the exit codes of the install and of the build subprocess by any
  two integers changes neither the outcome of the entry point (normal return, or which
  exception) nor the subprocesses it starts: only the existence of the output directory
  decides. At the steps themselves, an install or a build that returns, with whatever
  exit code, makes \<^verbatim>\<open>_run_install\<close> or \<^verbatim>\<open>_run_build\<close> return normally.
\<close>

theorem install_and_build_exit_codes_ignored:
  "fst (initialize (with_exit_codes E rc_install rc_build) version build_data s) =
     fst (initialize E version build_data s)
   \<and> invoked s (snd (initialize (with_exit_codes E rc_install rc_build) version build_data s)) =
       invoked s (snd (initialize E version build_data s))
   \<and> (writable (log_file t) \<and> subprocess_run E (install_cmd E) = Inr installed
        \<longrightarrow> fst (run_install E t) = Inr installed)
   \<and> (writable (log_file t) \<and> subprocess_run E (build_cmd E) = Inr built
        \<longrightarrow> fst (run_build E t) = Inr built)"
proof -
  let ?s = "s\<lparr>cwd := PACKAGE_DIR E, log_file := fresh_log\<rparr>"
  have w: "writable (log_file ?s)" by (simp add: fresh_log_writable)
  have c: "calls (snd (initialize (with_exit_codes E rc_install rc_build) version build_data s)) =
           calls (snd (initialize E version build_data s))"
    by (simp add: initialize_calls with_exit_codes_fields run_with_exit_codes [OF w]
          cong: option.case_cong)
  have "fst (initialize (with_exit_codes E rc_install rc_build) version build_data s) =
        fst (initialize E version build_data s)"
    unfolding initialize_result c
    by (simp add: with_exit_codes_fields run_with_exit_codes [OF w] cong: option.case_cong)
  with c show ?thesis
    by (simp add: invoked_def run_steps_effect)
qed

theorem install_and_build_exit_codes_ignored_witness:
  "fst (initialize (with_exit_codes example_env 1 2) (ustr ''0.1.0'') () example_state) =
     fst (initialize example_env (ustr ''0.1.0'') () example_state)
   \<and> fst (run_install (with_exit_codes example_env 1 2) example_state) =
       Inr (completed 1 ''ok'' [])"
proof -
  have "subprocess_run (with_exit_codes example_env 1 2)
          (install_cmd (with_exit_codes example_env 1 2)) =
        Inr (completed 1 ''ok'' [])"
    by (simp add: with_exit_codes_paths with_exit_codes_run exit_with_def example_env_fields
          completed_def)
  moreover have "writable (log_file example_state)"
    by (simp add: example_state_def fresh_log_writable)
  ultimately show ?thesis
    using install_and_build_exit_codes_ignored
            [of example_env 1 2 "ustr ''0.1.0''" "()" example_state]
          install_and_build_exit_codes_ignored
            [of "with_exit_codes example_env 1 2" 0 0 "ustr ''0.1.0''" "()" example_state
                example_state "completed 1 ''ok'' []"]
    by simp
qed

subsection \<open>The node version check\<close>

lemma node_check_nonzero_exit:
  assumes "py_open E [ustr ''setup.log''] = None"
    and "py_open E (package_json_path E) = None"
    and "json_load E = Inr (JObj kvs)"
    and "map_of kvs (ustr ''version'') = Some (JStr STREAMLIT_VERSION)"
    and "chdir_error E (length (calls s)) (PACKAGE_DIR E) = None"
    and "chdir_error E (Suc (length (calls s))) (cwd s) = None"
    and "subprocess_run E (node_version_cmd E) = Inr r"
    and "returncode r \<noteq> 0"
  shows "fst (initialize E version build_data s) =
           Inl (BuildErrorException
                  (ustr ''Could not find node - it is required for React components''))"
    and "invoked s (snd (initialize E version build_data s)) = [node_version_cmd E]"
proof -
  let ?s = "s\<lparr>cwd := PACKAGE_DIR E, log_file := fresh_log\<rparr>"
  have w: "writable (log_file ?s)" by (simp add: fresh_log_writable)
  have m: "fst (check_package_json E ?s) = Inr ()"
    using w assms(2,3) by (rule manifest_passes) (simp add: assms(4))
  show "fst (initialize E version build_data s) =
           Inl (BuildErrorException
                  (ustr ''Could not find node - it is required for React components''))"
    and "invoked s (snd (initialize E version build_data s)) = [node_version_cmd E]"
    using run_closed_form [OF w, of E] m assms(6,7,8)
    by (simp_all add: initialize_run [OF assms(5,1)] invoked_def)
qed

lemma node_check_invocation_error:
  assumes "py_open E [ustr ''setup.log''] = None"
    and "py_open E (package_json_path E) = None"
    and "json_load E = Inr (JObj kvs)"
    and "map_of kvs (ustr ''version'') = Some (JStr STREAMLIT_VERSION)"
    and "chdir_error E (length (calls s)) (PACKAGE_DIR E) = None"
    and "chdir_error E (Suc (length (calls s))) (cwd s) = None"
    and "subprocess_run E (node_version_cmd E) = Inl e"
  shows "fst (initialize E version build_data s) = Inl e"
    and "invoked s (snd (initialize E version build_data s)) = [node_version_cmd E]"
proof -
  let ?s = "s\<lparr>cwd := PACKAGE_DIR E, log_file := fresh_log\<rparr>"
  have w: "writable (log_file ?s)" by (simp add: fresh_log_writable)
  have m: "fst (check_package_json E ?s) = Inr ()"
    using w assms(2,3) by (rule manifest_passes) (simp add: assms(4))
  show "fst (initialize E version build_data s) = Inl e"
    and "invoked s (snd (initialize E version build_data s)) = [node_version_cmd E]"
    using run_closed_form [OF w, of E] m assms(6,7)
    by (simp_all add: initialize_run [OF assms(5,1)] invoked_def)
qed

text \<open>
  Claim C5. The claim asks for the \<^verbatim>\<open>BuildErrorException\<close> "Could not find node" both when
  \<^verbatim>\<open>node --version\<close> exits with a code other than 0 and when it cannot be started.
  The first holds (\<open>node_check_nonzero_exit\<close>). The second does not: with no
  \<^verbatim>\<open>node\<close> program to start, \<^verbatim>\<open>subprocess.run\<close> raises and \<^verbatim>\<open>_check_node_installed\<close>
  never reaches its test of the exit code, so the operating system's error leaves the
  entry point as it is (\<open>node_check_invocation_error\<close>); the theorem shows it in the
  world without \<^verbatim>\<open>node\<close>. In both cases the package manager is not started.
\<close>

theorem missing_node_raises_os_error:
  "fst (initialize node_missing_env (ustr ''0.1.0'') () example_state) =
     Inl (OSError (ustr ''No such file or directory: node''))
   \<and> \<not> is_BuildErrorException (OSError (ustr ''No such file or directory: node''))
   \<and> invoked example_state (snd (initialize node_missing_env (ustr ''0.1.0'') () example_state)) =
       [node_version_cmd node_missing_env]"
proof -
  let ?s = "example_state\<lparr>cwd := PACKAGE_DIR node_missing_env, log_file := fresh_log\<rparr>"
  have w: "writable (log_file ?s)" by (simp add: fresh_log_writable)
  have m: "fst (check_package_json node_missing_env ?s) = Inr ()"
    by (rule manifest_passes_expected [OF w])
       (simp_all add: node_missing_env_def example_env_fields)
  have n: "subprocess_run node_missing_env (node_version_cmd node_missing_env) =
             Inl (OSError (ustr ''No such file or directory: node''))"
    by (simp add: node_missing_env_def node_version_cmd_def)
  have o: "py_open node_missing_env [ustr ''setup.log''] = None"
    and c: "chdir_error node_missing_env = (\<lambda>k p. None)"
    by (simp_all add: node_missing_env_def example_env_fields)
  show ?thesis
    using run_closed_form [OF w, of node_missing_env] m n
    by (simp add: initialize_plain [OF c o] invoked_def example_state_def)
qed

subsection \<open>The build output directory\<close>

lemma no_linebreak_append: "no_linebreak (xs @ ys) = (no_linebreak xs \<and> no_linebreak ys)"
  by (auto simp: no_linebreak_def)

lemma nonblank_lines_one_line:
  assumes "no_linebreak msg" "\<exists>c\<in>set msg. \<not> is_space c"
  shows "nonblank_lines msg = [msg]"
proof -
  from assms(2) have "msg \<noteq> []" by auto
  with assms(1) have "splitlines msg = [msg]" by (rule splitlines_one_line)
  with assms(2) show ?thesis by (simp add: nonblank_lines_def)
qed

lemma msg_log_one_line:
  assumes "writable (log_file s)" "no_linebreak msg" "\<exists>c\<in>set msg. \<not> is_space c"
    "encodable msg"
  shows "written (log_file (snd (msg_log E msg indent s))) =
           written (log_file s) @ [replicate (nat indent) 32 @ msg @ linesep E]"
  using assms(1,4) by (simp add: msg_log_eq nonblank_lines_one_line [OF assms(2,3)])

lemma literal_checking_built:
  "no_linebreak (ustr ''Checking if frontend was built...'')"
  "\<exists>c\<in>set (ustr ''Checking if frontend was built...''). \<not> is_space c"
  "no_linebreak (ustr ''Found build directory'')"
  "\<exists>c\<in>set (ustr ''Found build directory''). \<not> is_space c"
  by (simp_all add: no_linebreak_def ustr_def is_linebreak_def is_space_def)

lemma check_build_output_ok_written:
  assumes "writable (log_file s)"
  shows "written (log_file (snd (check_build_output_ok E s))) =
           written (log_file s) @ [ustr ''Checking if frontend was built...'' @ linesep E]
             @ (if is_dir E (length (calls s)) (build_dir E)
                then [ustr ''  Found build directory'' @ linesep E] else [])"
  using assms
  by (simp add: check_build_output_ok_def proj2 msg_log_one_line literal_checking_built
        replicate_two) (simp add: ustr_def)

lemma initialize_after_build:
  assumes "build_cmd E \<in> set (invoked s (snd (initialize E version build_data s)))"
    and "subprocess_run E (build_cmd E) = Inr built"
  shows "fst (initialize E version build_data s) =
           (case chdir_error E (length (calls (snd (initialize E version build_data s)))) (cwd s) of
              Some e \<Rightarrow> Inl e
            | None \<Rightarrow>
                if is_dir E (length (calls (snd (initialize E version build_data s)))) (build_dir E)
                then Inr ()
                else Inl (BuildErrorException (ustr ''Failed to create output directory'')))"
proof -
  let ?s = "s\<lparr>cwd := PACKAGE_DIR E, log_file := fresh_log\<rparr>"
  have w: "writable (log_file ?s)" by (simp add: fresh_log_writable)
  from assms(1) have c: "chdir_error E (length (calls s)) (PACKAGE_DIR E) = None"
    and o: "py_open E [ustr ''setup.log''] = None"
    by (simp_all add: initialize_calls invoked_def split: option.splits)
  show ?thesis
    using run_closed_form [OF w, of E] assms
    by (simp add: initialize_run [OF c o] invoked_def cmd_distinct' eval_nat_numeral
          split: sum.splits if_splits option.splits)
qed

text \<open>
  Claim C7. \<^verbatim>\<open>_check_build_output_ok\<close> on a writable log raises the
  \<^verbatim>\<open>BuildErrorException\<close> "Failed to create output directory" exactly when the build
  directory is not a directory at that moment; when it is one, the line
  "Found build directory" is logged after "Checking if frontend was built..." and the
  method returns. Nothing else is looked at. For the entry point: once the build
  subprocess has been started and has returned, the outcome is decided by that test
  alone, unless changing back to the original directory fails afterwards; then the
  exception of \<^verbatim>\<open>os.chdir\<close> is the one that is raised.
\<close>

theorem build_output_directory_gates_success:
  "(writable (log_file s) \<longrightarrow>
      fst (check_build_output_ok E s) =
        (if is_dir E (length (calls s)) (build_dir E) then Inr ()
         else Inl (BuildErrorException (ustr ''Failed to create output directory'')))
      \<and> written (log_file (snd (check_build_output_ok E s))) =
          written (log_file s) @ [ustr ''Checking if frontend was built...'' @ linesep E]
            @ (if is_dir E (length (calls s)) (build_dir E)
               then [ustr ''  Found build directory'' @ linesep E] else [])
      \<and> calls (snd (check_build_output_ok E s)) = calls s)
   \<and> (build_cmd E \<in> set (invoked s0 (snd (initialize E version build_data s0)))
        \<and> subprocess_run E (build_cmd E) = Inr built \<longrightarrow>
      fst (initialize E version build_data s0) =
        (case chdir_error E (length (calls (snd (initialize E version build_data s0)))) (cwd s0) of
           Some e \<Rightarrow> Inl e
         | None \<Rightarrow>
             if is_dir E (length (calls (snd (initialize E version build_data s0)))) (build_dir E)
             then Inr ()
             else Inl (BuildErrorException (ustr ''Failed to create output directory''))))"
  by (simp add: run_steps_effect check_build_output_ok_written initialize_after_build)

theorem build_output_directory_gates_success_witness:
  "fst (check_build_output_ok no_output_env example_state) =
     Inl (BuildErrorException (ustr ''Failed to create output directory''))
   \<and> fst (check_build_output_ok example_env example_state) = Inr ()
   \<and> written (log_file (snd (check_build_output_ok example_env example_state))) =
       [ustr ''Checking if frontend was built...'' @ [10],
        ustr ''  Found build directory'' @ [10]]
   \<and> fst (initialize no_output_env (ustr ''0.1.0'') () example_state) =
       Inl (BuildErrorException (ustr ''Failed to create output directory''))"
proof -
  let ?s = "example_state\<lparr>cwd := PACKAGE_DIR no_output_env, log_file := fresh_log\<rparr>"
  have w: "writable (log_file ?s)" by (simp add: fresh_log_writable)
  have "calls (snd (run no_output_env ?s)) =
          calls ?s @ [node_version_cmd no_output_env, pkgmgr_version_cmd no_output_env,
                      install_cmd no_output_env, build_cmd no_output_env]"
    by (rule example_run_calls(1) [OF _ _ _ w])
       (simp_all add: no_output_env_def example_env_fields)
  then have b: "build_cmd no_output_env
               \<in> set (invoked example_state
                        (snd (initialize no_output_env (ustr ''0.1.0'') () example_state)))"
    by (simp add: initialize_calls invoked_def no_output_env_def example_env_fields
          example_state_def)
  have c: "subprocess_run no_output_env (build_cmd no_output_env) =
             Inr (completed 0 ''ok'' [])"
    by (simp add: no_output_env_def example_env_fields)
  have w': "writable (log_file example_state)"
    by (simp add: example_state_def fresh_log_writable)
  show ?thesis
    using build_output_directory_gates_success
            [where s = example_state and E = no_output_env and ?s0.0 = example_state
                and version = "ustr ''0.1.0''" and build_data = "()"
                and built = "(completed 0 ''ok'' [])"]
          build_output_directory_gates_success
            [where s = example_state and E = example_env and ?s0.0 = example_state
                and version = "ustr ''0.1.0''" and build_data = "()"
                and built = "(completed 0 ''ok'' [])"]
          b c w'
    by (simp add: no_output_env_def example_env_fields example_state_def fresh_log_def)
qed

subsection \<open>What the manifest check logs\<close>

lemma surrogate_is_text: "is_surrogate c \<Longrightarrow> \<not> is_linebreak c \<and> \<not> is_space c"
  by (auto simp: is_surrogate_def is_linebreak_def is_space_def)

lemma unencodable_line:
  assumes "\<not> encodable msg"
  shows "\<exists>line\<in>set (nonblank_lines msg). \<not> encodable line"
proof -
  from assms obtain c where c: "c \<in> set msg" "is_surrogate c"
    by (auto simp: encodable_def)
  then have "c \<in> set (filter (\<lambda>c. \<not> is_linebreak c) msg)"
    by (simp add: surrogate_is_text)
  then have "c \<in> set (concat (splitlines msg))"
    by (simp only: splitlines_def splitlines_from_concat append_Nil)
  then obtain line where l: "line \<in> set (splitlines msg)" "c \<in> set line" by auto
  with c(2) have "line \<in> set (nonblank_lines msg)" "\<not> encodable line"
    using surrogate_is_text [of c] by (auto simp: nonblank_lines_def encodable_def)
  then show ?thesis by blast
qed

lemma log_outcome_unencodable:
  assumes "\<not> encodable msg"
  shows "\<exists>t. log_outcome E indent msg = Inl (UnicodeEncodeError t)"
proof -
  from unencodable_line [OF assms] have "dropWhile encodable (nonblank_lines msg) \<noteq> []"
    by (simp add: dropWhile_eq_Nil_conv)
  then show ?thesis by (cases "dropWhile encodable (nonblank_lines msg)") (simp_all add: log_outcome_def)
qed

lemma log_outcome_no_JSONDecodeError: "log_outcome E indent msg \<noteq> Inl (JSONDecodeError m x p)"
  by (simp add: log_outcome_def split: list.splits)

lemma takeWhile_all: "list_all P xs \<Longrightarrow> takeWhile P xs = xs"
  by (simp add: list_all_iff)

lemma literal_checking_version:
  "no_linebreak (ustr ''Checking package.json version...'')"
  "\<exists>c\<in>set (ustr ''Checking package.json version...''). \<not> is_space c"
  by (simp_all add: no_linebreak_def ustr_def is_linebreak_def is_space_def)

lemma literal_warning_missing:
  "no_linebreak (ustr ''WARNING: package.json:version is missing, should be '' @ STREAMLIT_VERSION)"
  "\<exists>c\<in>set (ustr ''WARNING: package.json:version is missing, should be '' @ STREAMLIT_VERSION).
      \<not> is_space c"
  by (simp_all add: no_linebreak_def ustr_def is_linebreak_def is_space_def STREAMLIT_VERSION_def)

lemma literal_warning_mismatch:
  "no_linebreak (ustr ''WARNING: package.json:version should be '' @ STREAMLIT_VERSION
                   @ ustr '' not '' @ found) = no_linebreak found"
  "\<exists>c\<in>set (ustr ''WARNING: package.json:version should be '' @ STREAMLIT_VERSION
                @ ustr '' not '' @ found). \<not> is_space c"
  by (simp_all add: no_linebreak_def ustr_def is_linebreak_def is_space_def STREAMLIT_VERSION_def)

lemma lines_checking_version:
  "nonblank_lines (ustr ''Checking package.json version...'') =
   [ustr ''Checking package.json version...'']"
  by (rule nonblank_lines_one_line) (rule literal_checking_version)+

lemma lines_warning_missing:
  "nonblank_lines (ustr ''WARNING: package.json:version is missing, should be ''
        @ STREAMLIT_VERSION) =
   [ustr ''WARNING: package.json:version is missing, should be '' @ STREAMLIT_VERSION]"
  by (rule nonblank_lines_one_line) (rule literal_warning_missing)+

lemma lines_warning_mismatch:
  assumes "no_linebreak found"
  shows "nonblank_lines (ustr ''WARNING: package.json:version should be '' @ STREAMLIT_VERSION
        @ ustr '' not '' @ found) =
   [ustr ''WARNING: package.json:version should be '' @ STREAMLIT_VERSION
      @ ustr '' not '' @ found]"
  using assms by (intro nonblank_lines_one_line) (simp_all only: literal_warning_mismatch)

lemma check_package_json_object_written:
  assumes "writable (log_file s)" "py_open E (package_json_path E) = None"
    "json_load E = Inr (JObj kvs)"
  shows "written (log_file (snd (check_package_json E s))) =
     written (log_file s) @ [ustr ''Checking package.json version...'' @ linesep E] @
       (case map_of kvs (ustr ''version'') of
          None \<Rightarrow>
            [ustr ''WARNING: package.json:version is missing, should be '' @ STREAMLIT_VERSION
               @ linesep E]
        | Some v \<Rightarrow>
            if v = JStr STREAMLIT_VERSION then []
            else map (\<lambda>line. line @ linesep E)
                   (takeWhile encodable
                      (nonblank_lines (ustr ''WARNING: package.json:version should be ''
                         @ STREAMLIT_VERSION @ ustr '' not '' @ py_format E v))))"
proof (cases "map_of kvs (ustr ''version'')")
  case None
  then have "ustr ''version'' \<notin> fst ` set kvs" by (simp add: map_of_eq_None_iff)
  with assms None show ?thesis
    by (simp add: check_package_json_def proj2 msg_log_eq py_contains_def py_getitem_def
          lines_checking_version lines_warning_missing)
next
  case (Some v)
  then have "ustr ''version'' \<in> fst ` set kvs" by (metis map_of_eq_None_iff option.distinct(1))
  with assms Some show ?thesis
    by (simp add: check_package_json_def proj2 msg_log_eq py_contains_def py_getitem_def
          lines_checking_version log_outcome_no_JSONDecodeError
          split: sum.splits exn.splits)
qed

subsection \<open>Kinds of errors\<close>

lemma version_warning_error:
  assumes "log_outcome E 0 (ustr ''WARNING: package.json:version should be '' @ STREAMLIT_VERSION
             @ ustr '' not '' @ py_format E v) = Inl e"
  shows "\<not> encodable (py_format E v)" "\<exists>t. e = UnicodeEncodeError t"
proof -
  show "\<not> encodable (py_format E v)"
    using assms by (auto simp: log_outcome_encodable encodable_simps)
  then have "\<not> encodable (ustr ''WARNING: package.json:version should be '' @ STREAMLIT_VERSION
             @ ustr '' not '' @ py_format E v)"
    by (simp add: encodable_simps)
  from log_outcome_unencodable [OF this, of E 0] assms show "\<exists>t. e = UnicodeEncodeError t"
    by auto
qed

text \<open>
  Claim C6, as stated, fails: for the manifest \<^verbatim>\<open>{\<close> the entry point raises a
  \<^verbatim>\<open>JSONDecodeError\<close>, which is not a \<^verbatim>\<open>BuildErrorException\<close>.
\<close>

theorem parse_error_is_not_a_build_error:
  "fst (initialize bad_manifest_env (ustr ''0.1.0'') () example_state) =
     Inl (JSONDecodeError
            (ustr ''package.json: Expecting property name enclosed in double quotes'')
            (ustr ''/pkg/streamlit_javascript/frontend/package.json'') 1)
   \<and> \<not> is_BuildErrorException
         (JSONDecodeError
            (ustr ''package.json: Expecting property name enclosed in double quotes'')
            (ustr ''/pkg/streamlit_javascript/frontend/package.json'') 1)"
  using bad_manifest_outcome by simp

text \<open>
  Claim C6, amended. An exception that leaves the entry point is a
  \<^verbatim>\<open>BuildErrorException\<close> with one of three messages (node missing, package manager
  missing, no output directory), or the \<^verbatim>\<open>JSONDecodeError\<close> that
  \<^verbatim>\<open>_check_package_json\<close> raises for a manifest that does not parse (message, manifest
  path, position), or an exception that the hook did not raise itself: one of
  \<^verbatim>\<open>os.chdir\<close>, \<^verbatim>\<open>open\<close>, \<^verbatim>\<open>json.load\<close> or \<^verbatim>\<open>subprocess.run\<close>, of the version test
  on a manifest that is not an object, or the \<^verbatim>\<open>UnicodeEncodeError\<close> of writing to the
  log the warning about a version whose text cannot be encoded in UTF-8.
\<close>

theorem fatal_error_kinds:
  assumes "fst (initialize E version build_data s) = Inl e"
  shows "e = BuildErrorException
               (ustr ''Could not find node - it is required for React components'')
       \<or> e = BuildErrorException
               (ustr ''Could not find '' @ PACKAGE_MGR
                  @ ustr '' - it is required to install node packages'')
       \<or> e = BuildErrorException (ustr ''Failed to create output directory'')
       \<or> (\<exists>m d p. json_load E = Inl (JSONDecodeError m d p)
              \<and> e = JSONDecodeError (ustr ''package.json: '' @ m)
                      (fspath E (package_json_path E)) p)
       \<or> (\<exists>k p. chdir_error E k p = Some e)
       \<or> py_open E [ustr ''setup.log''] = Some e
       \<or> py_open E (package_json_path E) = Some e
       \<or> json_load E = Inl e
       \<or> (\<exists>cmd. subprocess_run E cmd = Inl e)
       \<or> (\<exists>pkg_desc. json_load E = Inr pkg_desc
              \<and> (py_contains pkg_desc (ustr ''version'') = Inl e
                  \<or> py_getitem pkg_desc (ustr ''version'') = Inl e))
       \<or> (\<exists>pkg_desc v t. json_load E = Inr pkg_desc
              \<and> py_getitem pkg_desc (ustr ''version'') = Inr v
              \<and> \<not> encodable (py_format E v)
              \<and> e = UnicodeEncodeError t)"
proof -
  let ?s = "s\<lparr>cwd := PACKAGE_DIR E, log_file := fresh_log\<rparr>"
  have w: "writable (log_file ?s)" by (simp add: fresh_log_writable)
  consider
      (restore) "chdir_error E (length (calls (snd (initialize E version build_data s)))) (cwd s)
                   = Some e"
    | (enter) "chdir_error E (length (calls s)) (PACKAGE_DIR E) = Some e"
    | (log) "py_open E [ustr ''setup.log''] = Some e"
    | (run) "fst (run E ?s) = Inl e"
    using assms by (auto simp: initialize_result split: option.splits)
  then show ?thesis
  proof cases
    case restore
    then show ?thesis by blast
  next
    case enter
    then show ?thesis by blast
  next
    case log
    then show ?thesis by blast
  next
    case run
    show ?thesis
    proof (cases "fst (check_package_json E ?s)")
      case (Inl e')
      with run_stops_at_manifest(1) [OF w Inl] run
      have "fst (check_package_json E ?s) = Inl e" by simp
      then show ?thesis
        by (auto simp: check_package_json_closed_form [OF w]
              split: option.splits sum.splits exn.splits if_splits
              dest: version_warning_error)
    next
      case (Inr u)
      then show ?thesis
        using run_closed_form [OF w, of E] run
        by (auto split: sum.splits if_splits)
    qed
  qed
qed

theorem fatal_error_kinds_witness:
  "fst (initialize bad_manifest_env (ustr ''0.1.0'') () example_state) =
     Inl (JSONDecodeError
            (ustr ''package.json: Expecting property name enclosed in double quotes'')
            (ustr ''/pkg/streamlit_javascript/frontend/package.json'') 1)
   \<and> (\<exists>m d p. json_load bad_manifest_env = Inl (JSONDecodeError m d p)
          \<and> JSONDecodeError
               (ustr ''package.json: Expecting property name enclosed in double quotes'')
               (ustr ''/pkg/streamlit_javascript/frontend/package.json'') 1 =
             JSONDecodeError (ustr ''package.json: '' @ m)
               (fspath bad_manifest_env (package_json_path bad_manifest_env)) p)"
proof -
  have "py_open bad_manifest_env = (\<lambda>p. None)"
    and "chdir_error bad_manifest_env = (\<lambda>k p. None)"
    and "\<forall>cmd. subprocess_run bad_manifest_env cmd \<noteq>
           Inl (JSONDecodeError
                  (ustr ''package.json: Expecting property name enclosed in double quotes'')
                  (ustr ''/pkg/streamlit_javascript/frontend/package.json'') 1)"
    and "json_load bad_manifest_env =
           Inl (JSONDecodeError (ustr ''Expecting property name enclosed in double quotes'')
                  (ustr ''{'') 1)"
    by (simp_all add: bad_manifest_env_def example_env_fields)
  with fatal_error_kinds [OF bad_manifest_outcome] bad_manifest_outcome
  show ?thesis by (simp add: ustr_def)
qed

subsection \<open>The version warning\<close>

text \<open>
  Claim C2, as stated, fails on three manifests that are valid JSON. For the manifest
  \<^verbatim>\<open>5\<close> the version is absent, and the entry point raises \<^verbatim>\<open>TypeError\<close> instead of
  warning. For \<^verbatim>\<open>{"version": "1\n2"}\<close> the version differs, and the warning is written
  as two lines, none of which holds the version found. For \<^verbatim>\<open>{"version": "\ud800"}\<close>
  the version differs, and writing the warning to the UTF-8 log raises
  \<^verbatim>\<open>UnicodeEncodeError\<close>, which leaves the entry point.
\<close>

theorem version_warning_can_span_lines:
  "fst (initialize scalar_manifest_env (ustr ''0.1.0'') () example_state) =
     Inl TypeError
   \<and> written (log_file (snd (check_package_json multiline_version_env example_state))) =
       [ustr ''Checking package.json version...'' @ [10],
        ustr ''WARNING: package.json:version should be 1.42.0 not 1'' @ [10],
        ustr ''2'' @ [10]]
   \<and> fst (initialize surrogate_version_env (ustr ''0.1.0'') () example_state) =
       Inl (UnicodeEncodeError
              (ustr ''WARNING: package.json:version should be 1.42.0 not '' @ [55296, 10]))"
proof -
  let ?s = "example_state\<lparr>cwd := PACKAGE_DIR scalar_manifest_env, log_file := fresh_log\<rparr>"
  have w: "writable (log_file ?s)" by (simp add: fresh_log_writable)
  have o: "py_open scalar_manifest_env [ustr ''setup.log''] = None"
    and c: "chdir_error scalar_manifest_env = (\<lambda>k p. None)"
    by (simp_all add: scalar_manifest_env_def example_env_fields)
  have "fst (check_package_json scalar_manifest_env ?s) =
          Inl TypeError"
    unfolding check_package_json_closed_form [OF w]
    by (simp add: scalar_manifest_env_def example_env_fields py_contains_def)
  with run_stops_at_manifest(1) [OF w]
  have a: "fst (initialize scalar_manifest_env (ustr ''0.1.0'') () example_state) =
     Inl TypeError"
    by (simp add: initialize_plain(1) [OF c o])
  have w': "writable (log_file example_state)"
    by (simp add: example_state_def fresh_log_writable)
  have b: "written (log_file (snd (check_package_json multiline_version_env example_state))) =
       [ustr ''Checking package.json version...'' @ [10],
        ustr ''WARNING: package.json:version should be 1.42.0 not 1'' @ [10],
        ustr ''2'' @ [10]]"
    by (subst check_package_json_object_written [OF w',
          where kvs = "[(ustr ''version'', JStr (ustr ''1'' @ [10] @ ustr ''2''))]"])
       (simp_all add: multiline_version_env_def example_env_fields example_state_def fresh_log_def
          py_format_def STREAMLIT_VERSION_def nonblank_lines_def splitlines_def ustr_def
          is_linebreak_def is_space_def encodable_def is_surrogate_def linesep_def
          example_env_def)
  let ?t = "example_state\<lparr>cwd := PACKAGE_DIR surrogate_version_env, log_file := fresh_log\<rparr>"
  have wt: "writable (log_file ?t)" by (simp add: fresh_log_writable)
  have o': "py_open surrogate_version_env [ustr ''setup.log''] = None"
    and c': "chdir_error surrogate_version_env = (\<lambda>k p. None)"
    by (simp_all add: surrogate_version_env_def example_env_fields)
  have "fst (check_package_json surrogate_version_env ?t) =
          Inl (UnicodeEncodeError
                 (ustr ''WARNING: package.json:version should be 1.42.0 not '' @ [55296, 10]))"
    unfolding check_package_json_closed_form [OF wt]
    by (simp add: surrogate_version_env_def example_env_fields py_contains_def py_getitem_def
          py_format_def STREAMLIT_VERSION_def log_outcome_def nonblank_lines_def splitlines_def
          ustr_def is_linebreak_def is_space_def encodable_def is_surrogate_def linesep_def
          example_env_def)
  with run_stops_at_manifest(1) [OF wt]
  have "fst (initialize surrogate_version_env (ustr ''0.1.0'') () example_state) =
          Inl (UnicodeEncodeError
                 (ustr ''WARNING: package.json:version should be 1.42.0 not '' @ [55296, 10]))"
    by (simp add: initialize_plain(1) [OF c' o'])
  with a b show ?thesis by simp
qed

text \<open>
  Claim C2, amended. For a manifest that can be opened and parses to an object,
  \<^verbatim>\<open>_check_package_json\<close> on a writable log starts no subprocess, and after the line
  "Checking package.json version..." it writes: nothing, when the version is the string
  \<^verbatim>\<open>1.42.0\<close>; the one line that the version is missing and should be \<^verbatim>\<open>1.42.0\<close>, when
  there is no version; and when the version differs, the one line naming \<^verbatim>\<open>1.42.0\<close>
  and the version found, provided the text of the version found holds no line
  boundary and can be encoded in UTF-8 (otherwise the non-blank lines of that message,
  up to the first that cannot be encoded). It returns normally in the first two cases,
  and in the third when the text of the version found can be encoded in UTF-8; when it
  cannot, \<^verbatim>\<open>UnicodeEncodeError\<close> is raised. When no exception is raised the run goes on:
  if the log can be opened and the package directory entered, the entry point reaches
  the node version check.
\<close>

theorem manifest_version_check:
  assumes "writable (log_file s)"
    and "py_open E (package_json_path E) = None"
    and "json_load E = Inr (JObj kvs)"
  shows "fst (check_package_json E s) =
           (case map_of kvs (ustr ''version'') of
              None \<Rightarrow> Inr ()
            | Some v \<Rightarrow>
                if v = JStr STREAMLIT_VERSION \<or> encodable (py_format E v) then Inr ()
                else log_outcome E 0
                       (ustr ''WARNING: package.json:version should be '' @ STREAMLIT_VERSION
                          @ ustr '' not '' @ py_format E v))
       \<and> (\<forall>v. map_of kvs (ustr ''version'') = Some v \<and> v \<noteq> JStr STREAMLIT_VERSION
                \<and> \<not> encodable (py_format E v) \<longrightarrow>
              (\<exists>t. fst (check_package_json E s) = Inl (UnicodeEncodeError t)))
       \<and> calls (snd (check_package_json E s)) = calls s
       \<and> written (log_file (snd (check_package_json E s))) =
           written (log_file s) @ [ustr ''Checking package.json version...'' @ linesep E] @
           (case map_of kvs (ustr ''version'') of
              None \<Rightarrow>
                [ustr ''WARNING: package.json:version is missing, should be ''
                   @ STREAMLIT_VERSION @ linesep E]
            | Some v \<Rightarrow>
                if v = JStr STREAMLIT_VERSION then []
                else if no_linebreak (py_format E v) \<and> encodable (py_format E v) then
                  [ustr ''WARNING: package.json:version should be '' @ STREAMLIT_VERSION
                     @ ustr '' not '' @ py_format E v @ linesep E]
                else
                  map (\<lambda>line. line @ linesep E)
                    (takeWhile encodable
                       (nonblank_lines (ustr ''WARNING: package.json:version should be ''
                          @ STREAMLIT_VERSION @ ustr '' not '' @ py_format E v))))
       \<and> (py_open E [ustr ''setup.log''] = None
            \<and> chdir_error E (length (calls s0)) (PACKAGE_DIR E) = None
            \<and> fst (check_package_json E s) = Inr () \<longrightarrow>
            node_version_cmd E \<in> set (invoked s0 (snd (initialize E version build_data s0))))"
proof -
  let ?warning = "\<lambda>v. ustr ''WARNING: package.json:version should be '' @ STREAMLIT_VERSION
                          @ ustr '' not '' @ py_format E v"
  let ?outcome = "case map_of kvs (ustr ''version'') of
              None \<Rightarrow> Inr ()
            | Some v \<Rightarrow>
                if v = JStr STREAMLIT_VERSION \<or> encodable (py_format E v) then Inr ()
                else log_outcome E 0 (?warning v)"
  have outcome: "fst (check_package_json E t) = ?outcome" if t: "writable (log_file t)" for t
  proof (cases "map_of kvs (ustr ''version'')")
    case None
    then have "ustr ''version'' \<notin> fst ` set kvs" by (simp add: map_of_eq_None_iff)
    with assms(2,3) None show ?thesis
      by (simp add: check_package_json_closed_form [OF t] py_contains_def)
  next
    case (Some v)
    then have "ustr ''version'' \<in> fst ` set kvs"
      by (metis map_of_eq_None_iff option.distinct(1))
    with assms(2,3) Some show ?thesis
      by (simp add: check_package_json_closed_form [OF t] py_contains_def py_getitem_def
            log_outcome_encodable encodable_simps)
  qed
  have raised: "\<exists>t. fst (check_package_json E s) = Inl (UnicodeEncodeError t)"
    if "map_of kvs (ustr ''version'') = Some v" "v \<noteq> JStr STREAMLIT_VERSION"
      "\<not> encodable (py_format E v)" for v
  proof -
    from that(3) have "\<not> encodable (?warning v)" by (simp add: encodable_simps)
    from log_outcome_unencodable [OF this, of E 0] that show ?thesis
      by (simp add: outcome [OF assms(1)])
  qed
  have reached: "node_version_cmd E \<in> set (invoked s0 (snd (initialize E version build_data s0)))"
    if "py_open E [ustr ''setup.log''] = None"
      "chdir_error E (length (calls s0)) (PACKAGE_DIR E) = None"
      "fst (check_package_json E s) = Inr ()"
  proof -
    have "fst (check_package_json E (s0\<lparr>cwd := PACKAGE_DIR E, log_file := fresh_log\<rparr>)) = Inr ()"
      using that(3) by (simp add: outcome [OF assms(1)] outcome fresh_log_writable)
    with that(1,2) show ?thesis by (rule initialize_passes_manifest)
  qed
  have lines: "takeWhile encodable (nonblank_lines (?warning v)) = [?warning v]"
    if "no_linebreak (py_format E v)" "encodable (py_format E v)" for v
    using that by (simp add: lines_warning_mismatch encodable_simps)
  have "written (log_file (snd (check_package_json E s))) =
           written (log_file s) @ [ustr ''Checking package.json version...'' @ linesep E] @
           (case map_of kvs (ustr ''version'') of
              None \<Rightarrow>
                [ustr ''WARNING: package.json:version is missing, should be ''
                   @ STREAMLIT_VERSION @ linesep E]
            | Some v \<Rightarrow>
                if v = JStr STREAMLIT_VERSION then []
                else if no_linebreak (py_format E v) \<and> encodable (py_format E v) then
                  [?warning v @ linesep E]
                else
                  map (\<lambda>line. line @ linesep E)
                    (takeWhile encodable (nonblank_lines (?warning v))))"
    using assms
    by (simp add: check_package_json_object_written lines split: option.splits)
  with outcome [OF assms(1)] raised reached show ?thesis
    by (simp add: check_package_json_frame split: option.splits)
qed

theorem manifest_version_check_witness:
  "written (log_file (snd (check_package_json old_version_env example_state))) =
     [ustr ''Checking package.json version...'' @ [10],
      ustr ''WARNING: package.json:version should be 1.42.0 not 1.0.0'' @ [10]]
   \<and> written (log_file (snd (check_package_json example_env example_state))) =
       [ustr ''Checking package.json version...'' @ [10]]
   \<and> fst (check_package_json old_version_env example_state) = Inr ()
   \<and> node_version_cmd old_version_env
        \<in> set (invoked example_state
                 (snd (initialize old_version_env (ustr ''0.1.0'') () example_state)))
   \<and> fst (check_package_json surrogate_version_env example_state) =
       Inl (UnicodeEncodeError
              (ustr ''WARNING: package.json:version should be 1.42.0 not '' @ [55296, 10]))"
  using manifest_version_check [of example_state old_version_env
          "[(ustr ''version'', JStr (ustr ''1.0.0''))]" example_state "ustr ''0.1.0''" "()"]
        manifest_version_check [of example_state example_env
          "[(ustr ''version'', JStr (ustr ''1.42.0''))]" example_state "ustr ''0.1.0''" "()"]
        manifest_version_check [of example_state surrogate_version_env
          "[(ustr ''version'', JStr [55296])]" example_state "ustr ''0.1.0''" "()"]
  by (simp add: old_version_env_def surrogate_version_env_def example_env_fields
        example_state_def fresh_log_def py_format_def STREAMLIT_VERSION_def no_linebreak_def
        ustr_def is_linebreak_def encodable_def is_surrogate_def linesep_def example_env_def
        log_outcome_def nonblank_lines_def splitlines_def is_space_def)

end
